theory Spec2Isabelle
  imports Complex_Main "HOL-Library.Stream"
begin

section \<open>Data model\<close>

text \<open>
  The fighting game keeps its geometry in pygame rectangles (integer x, y, width, height)
  and its velocities, percent and weight in Python floats. Floats are modelled by the
  reals: every formula below is the exact-arithmetic reading of the source expression.
  Times are the integer milliseconds returned by the clock.
\<close>

record pyrect =
  rect_x :: int
  rect_y :: int
  rect_w :: int
  rect_h :: int

definition left :: "pyrect \<Rightarrow> int" where
  "left r = rect_x r"

definition top :: "pyrect \<Rightarrow> int" where
  "top r = rect_y r"

definition right :: "pyrect \<Rightarrow> int" where
  "right r = rect_x r + rect_w r"

definition bottom :: "pyrect \<Rightarrow> int" where
  "bottom r = rect_y r + rect_h r"

definition centerx :: "pyrect \<Rightarrow> int" where
  "centerx r = rect_x r + rect_w r div 2"

definition centery :: "pyrect \<Rightarrow> int" where
  "centery r = rect_y r + rect_h r div 2"

definition Rect :: "int \<Rightarrow> int \<Rightarrow> int \<Rightarrow> int \<Rightarrow> pyrect" where
  "Rect x y w h = \<lparr>rect_x = x, rect_y = y, rect_w = w, rect_h = h\<rparr>"

text \<open>Assigning \<open>rect.bottom\<close> or \<open>rect.center\<close> moves the rectangle and keeps its size.\<close>

definition set_bottom :: "int \<Rightarrow> pyrect \<Rightarrow> pyrect" where
  "set_bottom v r = r\<lparr>rect_y := v - rect_h r\<rparr>"

definition set_center :: "int \<Rightarrow> int \<Rightarrow> pyrect \<Rightarrow> pyrect" where
  "set_center cx cy r = r\<lparr>rect_x := cx - rect_w r div 2, rect_y := cy - rect_h r div 2\<rparr>"

text \<open>
  \<open>colliderect\<close>: rectangles of zero width or height never collide; otherwise the
  open intervals spanned on both axes must meet, so touching edges do not collide.
\<close>

definition colliderect :: "pyrect \<Rightarrow> pyrect \<Rightarrow> bool" where
  "colliderect a b =
     (if rect_w a = 0 \<or> rect_h a = 0 \<or> rect_w b = 0 \<or> rect_h b = 0 then False
      else min (rect_x a) (rect_x a + rect_w a) < max (rect_x b) (rect_x b + rect_w b)
         \<and> min (rect_y a) (rect_y a + rect_h a) < max (rect_y b) (rect_y b + rect_h b)
         \<and> max (rect_x a) (rect_x a + rect_w a) > min (rect_x b) (rect_x b + rect_w b)
         \<and> max (rect_y a) (rect_y a + rect_h a) > min (rect_y b) (rect_y b + rect_h b))"

text \<open>Python's \<open>int(f)\<close> on a float truncates towards zero.\<close>

definition py_int :: "real \<Rightarrow> int" where
  "py_int r = (if 0 \<le> r then \<lfloor>r\<rfloor> else \<lceil>r\<rceil>)"

datatype side = Player | Enemy

datatype archetype =
  Base | Ninja | Tank | Mage | Archer | Assassin | Priest | Boxer | Robot | Gunner | Brawler

datatype anim_state = St_idle | St_run | St_attack | St_special

record hitbox =
  hb_rect :: pyrect
  damage :: real
  knockback :: real
  time :: int
  alive :: bool

record projectile =
  p_rect :: pyrect
  p_velx :: real
  p_vely :: real
  p_owner :: side
  p_damage :: real
  p_knockback :: real
  p_alive :: bool

text \<open>
  A \<open>Character\<close> object. \<open>ident\<close> stands for the identity of the object (the match has
  two of them); \<open>has_attack_anim\<close> and \<open>has_special_anim\<close> say whether
  \<open>animations.get("attack")\<close> and \<open>animations.get("special")\<close> hold a sprite.
\<close>

record character =
  ident :: side
  ch_name :: archetype
  rect :: pyrect
  velx :: real
  vely :: real
  speed :: real
  jump_strength :: real
  on_ground :: bool
  facing :: int
  percent :: real
  weight :: real
  active_attacks :: "hitbox list"
  last_attack_time :: int
  attack_cooldown :: int
  stocks :: int
  has_attack_anim :: bool
  has_special_anim :: bool
  current_state :: anim_state

section \<open>Entity operations\<close>

text \<open>\<open>receive_hit\<close>: the locals \<open>kb_force\<close> and \<open>direction\<close> are computed after
  \<open>percent\<close> has been increased by the damage.\<close>

definition kb_force :: "real \<Rightarrow> character \<Rightarrow> real" where
  "kb_force base_kb e = base_kb * (1 + percent e / 100) / max (1 / 2) (weight e)"

definition direction :: "character \<Rightarrow> character \<Rightarrow> real" where
  "direction e source = (if centerx (rect e) > centerx (rect source) then 1 else - 1)"

definition receive_hit :: "real \<Rightarrow> real \<Rightarrow> character \<Rightarrow> character \<Rightarrow> character" where
  "receive_hit dmg base_kb source e =
     (let e1 = e\<lparr>percent := percent e + dmg\<rparr>;
          kb = kb_force base_kb e1;
          d = direction e1 source
      in e1\<lparr>velx := velx e1 + kb * d, vely := vely e1 - kb * (6 / 10)\<rparr>)"

text \<open>The size of the horizontal velocity change a hit causes.\<close>

definition impulse :: "real \<Rightarrow> real \<Rightarrow> character \<Rightarrow> character \<Rightarrow> real" where
  "impulse dmg base_kb source e = \<bar>velx (receive_hit dmg base_kb source e) - velx e\<bar>"

definition on_ko :: "character \<Rightarrow> character" where
  "on_ko e =
     (let e1 = e\<lparr>stocks := stocks e - 1\<rparr>
      in if stocks e1 \<le> 0 then e1\<lparr>stocks := 3, percent := 0\<rparr> else e1)"

definition update_physics :: "real \<Rightarrow> character \<Rightarrow> character" where
  "update_physics gravity e =
     (let e1 = e\<lparr>vely := vely e + gravity\<rparr>
      in if on_ground e1 then e1\<lparr>velx := velx e1 * (85 / 100)\<rparr> else e1)"

definition apply_input :: "int \<Rightarrow> bool \<Rightarrow> character \<Rightarrow> character" where
  "apply_input move jump e =
     (let e1 = (if move \<noteq> 0
                then e\<lparr>velx := velx e + real_of_int move * speed e,
                       facing := (if move > 0 then 1 else - 1)\<rparr>
                else e)
      in if jump \<and> on_ground e1
         then e1\<lparr>vely := jump_strength e1, on_ground := False\<rparr>
         else e1)"

definition update_animation :: "character \<Rightarrow> character" where
  "update_animation e =
     (if \<bar>velx e\<bar> > 12 / 10 \<and> on_ground e then e\<lparr>current_state := St_run\<rparr>
      else e\<lparr>current_state := St_idle\<rparr>)"

section \<open>Attacks\<close>

text \<open>
  An attack method reads the clock once (\<open>now\<close>), and returns \<open>None\<close> (no action),
  the marker \<open>("melee",)\<close> or \<open>("proj", p)\<close> with a new projectile, together with the
  updated character.
\<close>

datatype attack_result = Melee | Proj projectile

text \<open>The hitbox rectangle beside the character, on the side it faces: every melee attack
  builds it with the same two-branch expression, with its own reach, offset and height.\<close>

definition side_rect :: "character \<Rightarrow> int \<Rightarrow> int \<Rightarrow> int \<Rightarrow> pyrect" where
  "side_rect e reach y h =
     (if facing e = 1 then Rect (right (rect e)) y reach h
      else Rect (left (rect e) - reach) y reach h)"

definition new_hit :: "pyrect \<Rightarrow> real \<Rightarrow> real \<Rightarrow> int \<Rightarrow> hitbox" where
  "new_hit r dmg kb t = \<lparr>hb_rect = r, damage = dmg, knockback = kb, time = t, alive = True\<rparr>"

definition append_attack :: "hitbox \<Rightarrow> character \<Rightarrow> character" where
  "append_attack h e = e\<lparr>active_attacks := active_attacks e @ [h]\<rparr>"

definition trigger_attack_anim :: "character \<Rightarrow> character" where
  "trigger_attack_anim e = (if has_attack_anim e then e\<lparr>current_state := St_attack\<rparr> else e)"

definition trigger_special_anim :: "character \<Rightarrow> character" where
  "trigger_special_anim e = (if has_special_anim e then e\<lparr>current_state := St_special\<rparr> else e)"

definition new_projectile ::
  "int \<Rightarrow> int \<Rightarrow> real \<Rightarrow> real \<Rightarrow> side \<Rightarrow> real \<Rightarrow> real \<Rightarrow> int \<Rightarrow> projectile" where
  "new_projectile x y vx vy owner dmg kb sz =
     \<lparr>p_rect = Rect x y sz sz, p_velx = vx, p_vely = vy, p_owner = owner,
      p_damage = dmg, p_knockback = kb, p_alive = True\<rparr>"

definition Character_light_attack :: "int \<Rightarrow> character \<Rightarrow> attack_result option \<times> character" where
  "Character_light_attack now e =
     (if now - last_attack_time e < attack_cooldown e then (None, e)
      else let e1 = e\<lparr>last_attack_time := now\<rparr>;
               reach = py_int (real_of_int (rect_w (rect e1)) * (6 / 10));
               r = side_rect e1 reach (centery (rect e1) - 10) 20
           in (Some Melee, trigger_attack_anim (append_attack (new_hit r 6 6 now) e1)))"

definition Character_heavy_attack :: "int \<Rightarrow> character \<Rightarrow> attack_result option \<times> character" where
  "Character_heavy_attack now e =
     (if now - last_attack_time e < py_int (real_of_int (attack_cooldown e) * (13 / 10))
      then (None, e)
      else let e1 = e\<lparr>last_attack_time := now\<rparr>;
               reach = py_int (real_of_int (rect_w (rect e1)) * (9 / 10));
               r = side_rect e1 reach (centery (rect e1) - 14) 28;
               e2 = (if facing e1 = 1 then e1\<lparr>velx := velx e1 - 2\<rparr>
                     else e1\<lparr>velx := velx e1 + 2\<rparr>)
           in (Some Melee, trigger_attack_anim (append_attack (new_hit r 10 12 now) e2)))"

definition Character_special_attack :: "int \<Rightarrow> character \<Rightarrow> attack_result option \<times> character" where
  "Character_special_attack now e =
     (if now - last_attack_time e < py_int (real_of_int (attack_cooldown e) * (9 / 10))
      then (None, e)
      else let e1 = e\<lparr>last_attack_time := now\<rparr>;
               e2 = e1\<lparr>velx := velx e1 + 6 * real_of_int (facing e1)\<rparr>;
               reach = py_int (real_of_int (rect_w (rect e2)) * (7 / 10));
               r = side_rect e2 reach (centery (rect e2) - 10) 20
           in (Some Melee, trigger_special_anim (append_attack (new_hit r 8 10 now) e2)))"

definition Ninja_special_attack :: "int \<Rightarrow> character \<Rightarrow> attack_result option \<times> character" where
  "Ninja_special_attack now e =
     (if now - last_attack_time e < 400 then (None, e)
      else let e1 = e\<lparr>last_attack_time := now\<rparr>;
               e2 = e1\<lparr>rect := (rect e1)\<lparr>rect_x := rect_x (rect e1) + 60 * facing e1\<rparr>\<rparr>;
               r = side_rect e2 40 (centery (rect e2) - 12) 24
           in (Some Melee, trigger_special_anim (append_attack (new_hit r 12 14 now) e2)))"

definition Tank_light_attack :: "int \<Rightarrow> character \<Rightarrow> attack_result option \<times> character" where
  "Tank_light_attack now e =
     (if now - last_attack_time e < attack_cooldown e then (None, e)
      else let e1 = e\<lparr>last_attack_time := now\<rparr>;
               r = side_rect e1 40 (centery (rect e1) - 16) 32
           in (Some Melee, trigger_attack_anim (append_attack (new_hit r 8 8 now) e1)))"

definition Tank_special_attack :: "int \<Rightarrow> character \<Rightarrow> attack_result option \<times> character" where
  "Tank_special_attack now e =
     (if now - last_attack_time e < 900 then (None, e)
      else let e1 = e\<lparr>last_attack_time := now\<rparr>;
               r = side_rect e1 60 (centery (rect e1) - 22) 44;
               e2 = append_attack (new_hit r 18 28 now) e1;
               e3 = e2\<lparr>velx := velx e2 - 4 * real_of_int (facing e2)\<rparr>
           in (Some Melee, trigger_special_anim e3))"

definition Mage_special_attack :: "int \<Rightarrow> character \<Rightarrow> attack_result option \<times> character" where
  "Mage_special_attack now e =
     (if now - last_attack_time e < 500 then (None, e)
      else let e1 = e\<lparr>last_attack_time := now\<rparr>;
               vx = 10 * real_of_int (facing e1);
               proj = new_projectile (centerx (rect e1) + facing e1 * 30) (centery (rect e1) - 10)
                        vx 0 (ident e1) 9 10 14
           in (Some (Proj proj), e1))"

definition Archer_special_attack :: "int \<Rightarrow> character \<Rightarrow> attack_result option \<times> character" where
  "Archer_special_attack now e =
     (if now - last_attack_time e < 420 then (None, e)
      else let e1 = e\<lparr>last_attack_time := now\<rparr>;
               vx = 12 * real_of_int (facing e1);
               vy = - 2;
               proj = new_projectile (centerx (rect e1) + facing e1 * 30) (centery (rect e1) - 16)
                        vx vy (ident e1) 11 11 12
           in (Some (Proj proj), e1))"

definition Assassin_light_attack :: "int \<Rightarrow> character \<Rightarrow> attack_result option \<times> character" where
  "Assassin_light_attack now e =
     (if now - last_attack_time e < 160 then (None, e)
      else let e1 = e\<lparr>last_attack_time := now\<rparr>;
               r = side_rect e1 28 (centery (rect e1) - 8) 16
           in (Some Melee, trigger_attack_anim (append_attack (new_hit r 5 5 now) e1)))"

definition Assassin_special_attack :: "int \<Rightarrow> character \<Rightarrow> attack_result option \<times> character" where
  "Assassin_special_attack now e =
     (if now - last_attack_time e < 700 then (None, e)
      else let e1 = e\<lparr>last_attack_time := now\<rparr>;
               e2 = e1\<lparr>rect := (rect e1)\<lparr>rect_x := rect_x (rect e1) + 80 * facing e1\<rparr>\<rparr>;
               r = side_rect e2 40 (centery (rect e2) - 14) 28
           in (Some Melee, trigger_special_anim (append_attack (new_hit r 16 18 now) e2)))"

definition Priest_special_attack :: "int \<Rightarrow> character \<Rightarrow> attack_result option \<times> character" where
  "Priest_special_attack now e =
     (if now - last_attack_time e < 1000 then (None, e)
      else let e1 = e\<lparr>last_attack_time := now\<rparr>;
               heal_amount = 12;
               e2 = e1\<lparr>percent := max 0 (percent e1 - heal_amount)\<rparr>
           in (Some Melee, trigger_special_anim e2))"

text \<open>The Boxer's light attack appends three hitboxes in one call (\<open>for i in range(3)\<close>),
  with damage and knockback \<open>4 + i\<close> and timestamps \<open>now + i * 60\<close>.\<close>

definition Boxer_hit :: "int \<Rightarrow> int \<Rightarrow> character \<Rightarrow> character" where
  "Boxer_hit now i e =
     (let t_offset = i * 60;
          ts = now + t_offset;
          r = side_rect e 26 (centery (rect e) - 10) 20;
          dmg = 4 + real_of_int i;
          kb = 4 + real_of_int i
      in append_attack (new_hit r dmg kb ts) e)"

definition Boxer_light_attack :: "int \<Rightarrow> character \<Rightarrow> attack_result option \<times> character" where
  "Boxer_light_attack now e =
     (if now - last_attack_time e < attack_cooldown e then (None, e)
      else let e1 = e\<lparr>last_attack_time := now\<rparr>;
               e2 = fold (Boxer_hit now) [0, 1, 2] e1
           in (Some Melee, trigger_attack_anim e2))"

definition Boxer_special_attack :: "int \<Rightarrow> character \<Rightarrow> attack_result option \<times> character" where
  "Boxer_special_attack now e =
     (if now - last_attack_time e < 600 then (None, e)
      else let e1 = e\<lparr>last_attack_time := now\<rparr>;
               r = side_rect e1 30 (top (rect e1) - 10) (rect_h (rect e1) + 20)
           in (Some Melee, trigger_special_anim (append_attack (new_hit r 12 22 now) e1)))"

definition Robot_light_attack :: "int \<Rightarrow> character \<Rightarrow> attack_result option \<times> character" where
  "Robot_light_attack now e =
     (if now - last_attack_time e < attack_cooldown e then (None, e)
      else let e1 = e\<lparr>last_attack_time := now\<rparr>;
               r = side_rect e1 36 (centery (rect e1) - 12) 24
           in (Some Melee, trigger_attack_anim (append_attack (new_hit r 9 9 now) e1)))"

definition Robot_special_attack :: "int \<Rightarrow> character \<Rightarrow> attack_result option \<times> character" where
  "Robot_special_attack now e =
     (if now - last_attack_time e < 900 then (None, e)
      else let e1 = e\<lparr>last_attack_time := now\<rparr>;
               vx = 7 * real_of_int (facing e1);
               proj = new_projectile (centerx (rect e1) + facing e1 * 36) (centery (rect e1) - 8)
                        vx 0 (ident e1) 20 24 18;
               e2 = e1\<lparr>velx := velx e1 - 5 * real_of_int (facing e1)\<rparr>
           in (Some (Proj proj), e2))"

definition Gunner_light_attack :: "int \<Rightarrow> character \<Rightarrow> attack_result option \<times> character" where
  "Gunner_light_attack now e =
     (if now - last_attack_time e < 220 then (None, e)
      else let e1 = e\<lparr>last_attack_time := now\<rparr>;
               vx = 14 * real_of_int (facing e1);
               proj = new_projectile (centerx (rect e1) + facing e1 * 28) (centery (rect e1) - 8)
                        vx 0 (ident e1) 7 7 8
           in (Some (Proj proj), e1))"

definition Gunner_special_attack :: "int \<Rightarrow> character \<Rightarrow> attack_result option \<times> character" where
  "Gunner_special_attack now e =
     (if now - last_attack_time e < 700 then (None, e)
      else let e1 = e\<lparr>last_attack_time := now\<rparr>;
               vx = 16 * real_of_int (facing e1);
               proj = new_projectile (centerx (rect e1) + facing e1 * 28) (centery (rect e1) - 6)
                        vx (- 1) (ident e1) 14 16 12;
               e2 = e1\<lparr>velx := velx e1 - 2 * real_of_int (facing e1)\<rparr>
           in (Some (Proj proj), e2))"

definition Brawler_heavy_attack :: "int \<Rightarrow> character \<Rightarrow> attack_result option \<times> character" where
  "Brawler_heavy_attack now e =
     (if now - last_attack_time e < py_int (real_of_int (attack_cooldown e) * (12 / 10))
      then (None, e)
      else let e1 = e\<lparr>last_attack_time := now\<rparr>;
               r = side_rect e1 48 (centery (rect e1) - 20) 40;
               e2 = (if facing e1 = 1 then e1\<lparr>velx := velx e1 - 3\<rparr>
                     else e1\<lparr>velx := velx e1 + 3\<rparr>)
           in (Some Melee, trigger_attack_anim (append_attack (new_hit r 14 20 now) e2)))"

definition Brawler_special_attack :: "int \<Rightarrow> character \<Rightarrow> attack_result option \<times> character" where
  "Brawler_special_attack now e =
     (if now - last_attack_time e < 900 then (None, e)
      else let e1 = e\<lparr>last_attack_time := now\<rparr>;
               sz = 120;
               r = Rect (centerx (rect e1) - sz div 2) (centery (rect e1) - sz div 2) sz sz;
               e2 = append_attack (new_hit r 16 22 now) e1;
               e3 = e2\<lparr>vely := vely e2 + 6\<rparr>
           in (Some Melee, trigger_special_anim e3))"

text \<open>Method resolution: a subclass's override if it has one, the base method otherwise.\<close>

definition light_attack :: "int \<Rightarrow> character \<Rightarrow> attack_result option \<times> character" where
  "light_attack now e =
     (case ch_name e of
        Tank \<Rightarrow> Tank_light_attack now e
      | Assassin \<Rightarrow> Assassin_light_attack now e
      | Boxer \<Rightarrow> Boxer_light_attack now e
      | Robot \<Rightarrow> Robot_light_attack now e
      | Gunner \<Rightarrow> Gunner_light_attack now e
      | _ \<Rightarrow> Character_light_attack now e)"

definition heavy_attack :: "int \<Rightarrow> character \<Rightarrow> attack_result option \<times> character" where
  "heavy_attack now e =
     (case ch_name e of
        Brawler \<Rightarrow> Brawler_heavy_attack now e
      | _ \<Rightarrow> Character_heavy_attack now e)"

definition special_attack :: "int \<Rightarrow> character \<Rightarrow> attack_result option \<times> character" where
  "special_attack now e =
     (case ch_name e of
        Base \<Rightarrow> Character_special_attack now e
      | Ninja \<Rightarrow> Ninja_special_attack now e
      | Tank \<Rightarrow> Tank_special_attack now e
      | Mage \<Rightarrow> Mage_special_attack now e
      | Archer \<Rightarrow> Archer_special_attack now e
      | Assassin \<Rightarrow> Assassin_special_attack now e
      | Priest \<Rightarrow> Priest_special_attack now e
      | Boxer \<Rightarrow> Boxer_special_attack now e
      | Robot \<Rightarrow> Robot_special_attack now e
      | Gunner \<Rightarrow> Gunner_special_attack now e
      | Brawler \<Rightarrow> Brawler_special_attack now e)"

datatype variant = Light | Heavy | Special

definition attack :: "variant \<Rightarrow> int \<Rightarrow> character \<Rightarrow> attack_result option \<times> character" where
  "attack v now e =
     (case v of Light \<Rightarrow> light_attack now e
              | Heavy \<Rightarrow> heavy_attack now e
              | Special \<Rightarrow> special_attack now e)"

text \<open>The cooldown window each attack method compares \<open>now - last_attack_time\<close> with.\<close>

definition cooldown_window :: "variant \<Rightarrow> character \<Rightarrow> int" where
  "cooldown_window v e =
     (case v of
        Light \<Rightarrow> (case ch_name e of Assassin \<Rightarrow> 160 | Gunner \<Rightarrow> 220 | _ \<Rightarrow> attack_cooldown e)
      | Heavy \<Rightarrow> (case ch_name e of
                    Brawler \<Rightarrow> py_int (real_of_int (attack_cooldown e) * (12 / 10))
                  | _ \<Rightarrow> py_int (real_of_int (attack_cooldown e) * (13 / 10)))
      | Special \<Rightarrow> (case ch_name e of
                      Base \<Rightarrow> py_int (real_of_int (attack_cooldown e) * (9 / 10))
                    | Ninja \<Rightarrow> 400 | Tank \<Rightarrow> 900 | Mage \<Rightarrow> 500 | Archer \<Rightarrow> 420
                    | Assassin \<Rightarrow> 700 | Priest \<Rightarrow> 1000 | Boxer \<Rightarrow> 600 | Robot \<Rightarrow> 900
                    | Gunner \<Rightarrow> 700 | Brawler \<Rightarrow> 900))"

text \<open>The constructors: \<open>Character.__init__\<close> and the attributes each subclass overrides.\<close>

definition BASE_WIDTH :: int where "BASE_WIDTH = 64"
definition BASE_HEIGHT :: int where "BASE_HEIGHT = 80"

definition Character_init :: "side \<Rightarrow> archetype \<Rightarrow> character" where
  "Character_init who cls =
     \<lparr>ident = who, ch_name = cls, rect = Rect 0 0 BASE_WIDTH BASE_HEIGHT,
      velx = 0, vely = 0, speed = 4, jump_strength = - 14, on_ground = False, facing = 1,
      percent = 0, weight = 1, active_attacks = [], last_attack_time = 0,
      attack_cooldown = 300, stocks = 3, has_attack_anim = False, has_special_anim = False,
      current_state = St_idle\<rparr>"

definition tune :: "real \<Rightarrow> real \<Rightarrow> real \<Rightarrow> int \<Rightarrow> character \<Rightarrow> character" where
  "tune sp js w cd e = e\<lparr>speed := sp, jump_strength := js, weight := w, attack_cooldown := cd\<rparr>"

definition new_character :: "side \<Rightarrow> archetype \<Rightarrow> character" where
  "new_character who cls =
     (let e = Character_init who cls in
      case cls of
        Base \<Rightarrow> e
      | Ninja \<Rightarrow> tune (55 / 10) (- 15) (9 / 10) 220 e
      | Tank \<Rightarrow> tune (32 / 10) (- 13) (18 / 10) 420 e
      | Mage \<Rightarrow> tune 4 (- (135 / 10)) 1 300 e
      | Archer \<Rightarrow> tune (42 / 10) (- (135 / 10)) (95 / 100) 260 e
      | Assassin \<Rightarrow> tune 6 (- 16) (8 / 10) 200 e
      | Priest \<Rightarrow> tune (38 / 10) (- (125 / 10)) (105 / 100) 320 e
      | Boxer \<Rightarrow> tune 5 (- 13) (95 / 100) 180 e
      | Robot \<Rightarrow> tune (36 / 10) (- 12) (14 / 10) 360 e
      | Gunner \<Rightarrow> tune (44 / 10) (- 13) 1 300 e
      | Brawler \<Rightarrow> tune (39 / 10) (- 13) (12 / 10) 300 e)"

section \<open>The stage and the match\<close>

definition WIDTH :: int where "WIDTH = 1000"
definition HEIGHT :: int where "HEIGHT = 600"
definition GRAVITY :: real where "GRAVITY = 9 / 10"
definition GROUND_Y :: int where "GROUND_Y = HEIGHT - 80"

definition PLATFORMS :: "pyrect list" where
  "PLATFORMS =
     [Rect 0 GROUND_Y WIDTH 80,
      Rect (WIDTH div 2 - 100) (GROUND_Y - 150) 200 20,
      Rect 150 (GROUND_Y - 90) 200 20,
      Rect (WIDTH - 350) (GROUND_Y - 90) 200 20]"

text \<open>The body of the loop of \<open>handle_platform_collisions\<close>, for one platform.\<close>

definition platform_step :: "pyrect \<Rightarrow> character \<Rightarrow> character" where
  "platform_step plat e =
     (if colliderect (rect e) plat
      then (if vely e \<ge> 0 \<and> real_of_int (bottom (rect e)) - vely e \<le> real_of_int (top plat + 6)
            then e\<lparr>rect := set_bottom (top plat) (rect e), vely := 0, on_ground := True\<rparr>
            else e)
      else e)"

text \<open>The condition of the two nested tests of the loop body: a landing on \<open>plat\<close>.\<close>

definition lands :: "pyrect \<Rightarrow> character \<Rightarrow> bool" where
  "lands plat e \<longleftrightarrow>
     colliderect (rect e) plat \<and> vely e \<ge> 0
     \<and> real_of_int (bottom (rect e)) - vely e \<le> real_of_int (top plat + 6)"

definition collide_platforms :: "pyrect list \<Rightarrow> character \<Rightarrow> character" where
  "collide_platforms plats e = fold platform_step plats (e\<lparr>on_ground := False\<rparr>)"

definition handle_platform_collisions :: "character \<Rightarrow> character" where
  "handle_platform_collisions e = collide_platforms PLATFORMS e"

text \<open>\<open>Rect.clamp_ip\<close>: move the rectangle inside the other one; one that is too large is
  centred on it.\<close>

definition clamp_axis :: "int \<Rightarrow> int \<Rightarrow> int \<Rightarrow> int \<Rightarrow> int" where
  "clamp_axis x w bx bw =
     (if w \<ge> bw then bx + bw div 2 - w div 2
      else if x < bx then bx
      else if x + w > bx + bw then bx + bw - w
      else x)"

definition clamp_ip :: "pyrect \<Rightarrow> pyrect \<Rightarrow> pyrect" where
  "clamp_ip b r =
     r\<lparr>rect_x := clamp_axis (rect_x r) (rect_w r) (rect_x b) (rect_w b),
       rect_y := clamp_axis (rect_y r) (rect_h r) (rect_y b) (rect_h b)\<rparr>"

subsection \<open>Projectiles\<close>

definition Projectile_update :: "projectile \<Rightarrow> projectile" where
  "Projectile_update p =
     p\<lparr>p_rect := (p_rect p)\<lparr>rect_x := rect_x (p_rect p) + py_int (p_velx p),
                              rect_y := rect_y (p_rect p) + py_int (p_vely p)\<rparr>\<rparr>"

text \<open>The loop "Update projectiles": each projectile moves, and is removed from the list
  when it is dead or fully outside the widened playfield.\<close>

fun update_projectiles :: "projectile list \<Rightarrow> projectile list" where
  "update_projectiles [] = []"
| "update_projectiles (p # ps) =
     (let p1 = Projectile_update p
      in if \<not> p_alive p1 \<or> right (p_rect p1) < - 100 \<or> left (p_rect p1) > WIDTH + 100
         then update_projectiles ps
         else p1 # update_projectiles ps)"

subsection \<open>Hitboxes against the opponent\<close>

text \<open>
  The loop over \<open>owner.active_attacks[:]\<close>: a hitbox that overlaps the target and is alive
  hits it and is marked dead. The result is the target and the owner's hitboxes with their
  flags as the loop leaves them.
\<close>

fun attacks_loop :: "character \<Rightarrow> hitbox list \<Rightarrow> character \<Rightarrow> character \<times> hitbox list" where
  "attacks_loop owner [] target = (target, [])"
| "attacks_loop owner (atk # rest) target =
     (if colliderect (hb_rect atk) (rect target) \<and> alive atk
      then (let target1 = receive_hit (damage atk) (knockback atk) owner target;
                (target2, rest1) = attacks_loop owner rest target1
            in (target2, atk\<lparr>alive := False\<rparr> # rest1))
      else (let (target2, rest1) = attacks_loop owner rest target
            in (target2, atk # rest1)))"

text \<open>
  The list comprehension that follows the loop keeps the hitboxes that are alive and
  younger than 600 ms. The clock is read once for every element; \<open>clock i\<close> is the reading
  taken for the element at index \<open>i\<close>.
\<close>

definition prune_attacks :: "(nat \<Rightarrow> int) \<Rightarrow> hitbox list \<Rightarrow> hitbox list" where
  "prune_attacks clock hs =
     map snd (filter (\<lambda>(i, a). alive a \<and> clock i - time a < 600) (enumerate 0 hs))"

definition resolve_attacks ::
  "(nat \<Rightarrow> int) \<Rightarrow> character \<Rightarrow> character \<Rightarrow> character \<times> character" where
  "resolve_attacks clock owner target =
     (let (target1, hs) = attacks_loop owner (active_attacks owner) target
      in (owner\<lparr>active_attacks := prune_attacks clock hs\<rparr>, target1))"

subsection \<open>Projectiles against the fighters\<close>

text \<open>
  The loop "Projectiles hitting players" over a copy of the list. The state is the pair
  (player, enemy); the result also holds the projectiles left in the list, a projectile
  being removed as soon as its flag is false.
\<close>

fun projectile_hits ::
  "projectile list \<Rightarrow> character \<times> character \<Rightarrow> (character \<times> character) \<times> projectile list" where
  "projectile_hits [] pe = (pe, [])"
| "projectile_hits (p # ps) (pl, en) =
     (let (pl1, en1, p1) =
            (if p_owner p = Player \<and> colliderect (p_rect p) (rect en)
             then (pl, receive_hit (p_damage p) (p_knockback p) pl en, p\<lparr>p_alive := False\<rparr>)
             else if p_owner p = Enemy \<and> colliderect (p_rect p) (rect pl)
             then (receive_hit (p_damage p) (p_knockback p) en pl, en, p\<lparr>p_alive := False\<rparr>)
             else (pl, en, p));
          (pe2, kept) = projectile_hits ps (pl1, en1)
      in if \<not> p_alive p1 then (pe2, kept) else (pe2, p1 # kept))"

section \<open>The opponent's controller\<close>

text \<open>
  \<open>SimpleAI\<close> keeps the counter \<open>cool\<close> and the last decided intent \<open>action\<close>; its character,
  its target and the projectile list are references to the objects of the match, passed
  to \<open>decide\<close> here. The random generator is modelled by what it returns: \<open>rs\<close> is the
  stream of the values of the successive calls of \<open>random.random()\<close>, and \<open>k\<close> the value
  of the one call of \<open>random.randint(15, 40)\<close>.
\<close>

record intent =
  i_move :: int
  i_jump :: bool
  i_light :: bool
  i_heavy :: bool
  i_special :: bool

record simple_ai =
  cool :: int
  action :: intent

type_synonym rng = "real stream"

definition SimpleAI_init :: simple_ai where
  "SimpleAI_init =
     \<lparr>cool = 0,
      action = \<lparr>i_move = 0, i_jump = False, i_light = False, i_heavy = False, i_special = False\<rparr>\<rparr>"

definition SimpleAI_update :: "simple_ai \<Rightarrow> simple_ai" where
  "SimpleAI_update a = (if cool a > 0 then a\<lparr>cool := cool a - 1\<rparr> else a)"

text \<open>The loop "avoid projectiles sometimes": it ends at the first projectile of the
  opponent that is near and whose draw succeeds (\<open>break\<close>).\<close>

fun avoid_projectiles ::
  "character \<Rightarrow> projectile list \<Rightarrow> intent \<times> simple_ai \<times> rng \<Rightarrow> intent \<times> simple_ai \<times> rng" where
  "avoid_projectiles c [] s = s"
| "avoid_projectiles c (p # ps) (it, a, rs) =
     (if p_owner p \<noteq> ident c
      then (if \<bar>centery (p_rect p) - centery (rect c)\<bar> < 40
               \<and> \<bar>centerx (p_rect p) - centerx (rect c)\<bar> < 180
            then (if shd rs < 6 / 10
                  then (let it1 = it\<lparr>i_move := (if centerx (p_rect p) < centerx (rect c)
                                                then - 1 else 1)\<rparr>;
                            rs1 = stl rs;
                            it2 = (if shd rs1 < 4 / 10 then it1\<lparr>i_jump := True\<rparr> else it1)
                        in (it2, a\<lparr>cool := cool a + 10\<rparr>, stl rs1))
                  else avoid_projectiles c ps (it, a, stl rs))
            else avoid_projectiles c ps (it, a, rs))
      else avoid_projectiles c ps (it, a, rs))"

text \<open>The \<open>if dist > 220 / elif dist > 120 / else\<close> statement that follows the loop.\<close>

definition range_behaviour :: "int \<Rightarrow> intent \<times> rng \<Rightarrow> intent \<times> rng" where
  "range_behaviour dist_x s =
     (let (it, rs) = s; dist = \<bar>dist_x\<bar>
      in if dist > 220
         then (let it1 = it\<lparr>i_move := (if dist_x > 0 then 1 else - 1)\<rparr>
               in if shd rs < 2 / 10 then (it1\<lparr>i_special := True\<rparr>, stl rs)
                  else (it1, stl rs))
         else if dist > 120
         then (let it1 = it\<lparr>i_move := (if dist_x > 0 then 1 else - 1)\<rparr>
               in if shd rs < 35 / 100 then (it1\<lparr>i_special := True\<rparr>, stl rs)
                  else if shd (stl rs) < 4 / 10 then (it1\<lparr>i_heavy := True\<rparr>, stl (stl rs))
                  else (it1, stl (stl rs)))
         else (let (it1, rs1) =
                     (if shd rs < 6 / 10 then (it\<lparr>i_light := True\<rparr>, stl rs)
                      else if shd (stl rs) < 3 / 10 then (it\<lparr>i_heavy := True\<rparr>, stl (stl rs))
                      else (it, stl (stl rs)))
               in if shd rs1 < 2 / 10 then (it1\<lparr>i_jump := True\<rparr>, stl rs1)
                  else (it1, stl rs1)))"

text \<open>"occasionally retreat if percent is high".\<close>

definition retreat :: "character \<Rightarrow> int \<Rightarrow> intent \<times> rng \<Rightarrow> intent \<times> rng" where
  "retreat c dist_x s =
     (let (it, rs) = s
      in if percent c > 120
         then (if shd rs < 5 / 10
               then (let it1 = it\<lparr>i_move := (if dist_x > 0 then - 1 else 1)\<rparr>
                     in if shd (stl rs) < 6 / 10 then (it1\<lparr>i_jump := True\<rparr>, stl (stl rs))
                        else (it1, stl (stl rs)))
               else (it, stl rs))
         else (it, rs))"

text \<open>\<open>decide\<close> returns the intent, the controller and the rest of the random stream.
  The first draw is made only when \<open>cool \<le> 0\<close> (\<open>and\<close> evaluates its right side lazily).\<close>

definition decide ::
  "character \<Rightarrow> character \<Rightarrow> projectile list \<Rightarrow> int \<Rightarrow> rng \<Rightarrow> simple_ai
     \<Rightarrow> intent \<times> simple_ai \<times> rng" where
  "decide c target ps k rs a =
     (if cool a \<le> 0 \<and> shd rs < 18 / 100
      then (let rs1 = stl rs;
                a1 = a\<lparr>cool := k\<rparr>;
                dist_x = centerx (rect target) - centerx (rect c);
                it0 = \<lparr>i_move = 0, i_jump = False, i_light = False, i_heavy = False,
                       i_special = False\<rparr>;
                (it1, a2, rs2) = avoid_projectiles c ps (it0, a1, rs1);
                (it2, rs3) = range_behaviour dist_x (it1, rs2);
                (it3, rs4) = retreat c dist_x (it2, rs3)
            in (it3, a2\<lparr>action := it3\<rparr>, rs4))
      else (let rs1 = (if cool a \<le> 0 then stl rs else rs);
                mv = (if \<bar>centerx (rect target) - centerx (rect c)\<bar> > 30
                      then (if centerx (rect target) > centerx (rect c) then 1 else - 1)
                      else 0);
                act = \<lparr>i_move = mv, i_jump = False, i_light = False, i_heavy = False,
                       i_special = False\<rparr>
            in if shd rs1 < 2 / 100 then (act\<lparr>i_light := True\<rparr>, a, stl rs1)
               else (act, a, stl rs1)))"

section \<open>The match: knock-outs and the tick\<close>

record match =
  player :: character
  enemy :: character
  projectiles :: "projectile list"
  game_over :: bool
  winner :: "side option"
  ai :: simple_ai

definition fighter :: "side \<Rightarrow> match \<Rightarrow> character" where
  "fighter who m = (case who of Player \<Rightarrow> player m | Enemy \<Rightarrow> enemy m)"

definition set_fighter :: "side \<Rightarrow> character \<Rightarrow> match \<Rightarrow> match" where
  "set_fighter who e m = (case who of Player \<Rightarrow> m\<lparr>player := e\<rparr> | Enemy \<Rightarrow> m\<lparr>enemy := e\<rparr>)"

definition out_of_bounds :: "pyrect \<Rightarrow> bool" where
  "out_of_bounds r \<longleftrightarrow> top r > HEIGHT + 200 \<or> right r < - 200 \<or> left r > WIDTH + 200"

text \<open>
  \<open>check_ko(ent, spawn_x)\<close>, a closure over \<open>game_over\<close> and \<open>winner\<close>; \<open>who\<close> says which
  of the two fighters \<open>ent\<close> is. The winner is \<open>"player"\<close> or \<open>"enemy"\<close>, here the side.
\<close>

definition check_ko :: "side \<Rightarrow> real \<Rightarrow> match \<Rightarrow> match" where
  "check_ko who spawn_x m =
     (let ent = fighter who m
      in if out_of_bounds (rect ent)
         then (if stocks ent \<le> 1
               then (let other = (if who = Player then Enemy else Player)
                     in m\<lparr>winner := Some (if other = Player then Player else Enemy),
                          game_over := True\<rparr>)
               else (let e1 = on_ko ent;
                         e2 = e1\<lparr>percent := 0\<rparr>;
                         e3 = e2\<lparr>rect := set_center (py_int spawn_x)
                                           (GROUND_Y - rect_h (rect e2) div 2) (rect e2)\<rparr>;
                         e4 = e3\<lparr>velx := 0, vely := 0\<rparr>
                     in set_fighter who e4 m))
         else m)"

definition check_kos :: "match \<Rightarrow> match" where
  "check_kos m =
     check_ko Enemy (real_of_int WIDTH * (75 / 100))
       (check_ko Player (real_of_int WIDTH * (25 / 100)) m)"

text \<open>
  What one pass of the simulation block of \<open>main_game\<close> takes from outside: the keys held,
  the clock readings of the attack methods (each reads the clock once when it is called) and
  of the two pruning passes, and the values the random generator gives the controller.
  Particles, screen shake and drawing do not touch the state modelled here.
\<close>

record tick_env =
  k_left :: bool
  k_right :: bool
  k_up :: bool
  k_z :: bool
  k_x :: bool
  k_c :: bool
  t_player_light :: int
  t_player_heavy :: int
  t_player_special :: int
  t_enemy_light :: int
  t_enemy_heavy :: int
  t_enemy_special :: int
  clock_player :: "nat \<Rightarrow> int"
  clock_enemy :: "nat \<Rightarrow> int"
  rand_int :: int
  rand :: rng

text \<open>An attack whose result is \<open>("proj", p)\<close> has its projectile appended to the list.\<close>

definition register ::
  "attack_result option \<times> character \<Rightarrow> projectile list \<Rightarrow> character \<times> projectile list" where
  "register res ps =
     (case fst res of Some (Proj p) \<Rightarrow> (snd res, ps @ [p]) | _ \<Rightarrow> (snd res, ps))"

definition fight ::
  "bool \<Rightarrow> bool \<Rightarrow> bool \<Rightarrow> int \<Rightarrow> int \<Rightarrow> int \<Rightarrow> character \<times> projectile list
     \<Rightarrow> character \<times> projectile list" where
  "fight want_light want_heavy want_special t_l t_h t_s s =
     (let (e, ps) = s;
          (e1, ps1) = (if want_light then register (light_attack t_l e) ps else (e, ps));
          e2 = (if want_heavy then snd (heavy_attack t_h e1) else e1);
          (e3, ps3) = (if want_special then register (special_attack t_s e2) ps1 else (e2, ps1))
      in (e3, ps3))"

definition integrate :: "character \<Rightarrow> character" where
  "integrate e =
     e\<lparr>rect := (rect e)\<lparr>rect_x := rect_x (rect e) + py_int (velx e),
                          rect_y := rect_y (rect e) + py_int (vely e)\<rparr>\<rparr>"

definition arena :: pyrect where
  "arena = Rect (- 500) (- 500) (WIDTH + 1000) (HEIGHT + 1000)"

definition player_phase :: "tick_env \<Rightarrow> match \<Rightarrow> match" where
  "player_phase env m =
     (let move_input = (if k_left env then - 1 else 0) + (if k_right env then 1 else 0);
          pl1 = update_physics GRAVITY (player m);
          pl2 = apply_input move_input (k_up env) pl1;
          (pl3, ps) = fight (k_z env) (k_x env) (k_c env)
                        (t_player_light env) (t_player_heavy env) (t_player_special env)
                        (pl2, projectiles m)
      in m\<lparr>player := pl3, projectiles := ps\<rparr>)"

definition enemy_phase :: "tick_env \<Rightarrow> match \<Rightarrow> match" where
  "enemy_phase env m =
     (let a1 = SimpleAI_update (ai m);
          (act, a2, rs) = decide (enemy m) (player m) (projectiles m) (rand_int env) (rand env) a1;
          en1 = update_physics GRAVITY (enemy m);
          en2 = apply_input (i_move act) (i_jump act) en1;
          (en3, ps) = fight (i_light act) (i_heavy act) (i_special act)
                        (t_enemy_light env) (t_enemy_heavy env) (t_enemy_special env)
                        (en2, projectiles m)
      in m\<lparr>enemy := en3, projectiles := ps, ai := a2\<rparr>)"

definition collision_phase :: "tick_env \<Rightarrow> match \<Rightarrow> match" where
  "collision_phase env m =
     (let ps = update_projectiles (projectiles m);
          pl1 = handle_platform_collisions ((player m)\<lparr>rect := clamp_ip arena (rect (player m))\<rparr>);
          en1 = handle_platform_collisions ((enemy m)\<lparr>rect := clamp_ip arena (rect (enemy m))\<rparr>);
          (pl2, en2) = resolve_attacks (clock_player env) pl1 en1;
          (en3, pl3) = resolve_attacks (clock_enemy env) en2 pl2;
          ((pl4, en4), ps1) = projectile_hits ps (pl3, en3)
      in m\<lparr>player := integrate pl4, enemy := integrate en4, projectiles := ps1\<rparr>)"

definition animation_phase :: "match \<Rightarrow> match" where
  "animation_phase m =
     m\<lparr>player := update_animation (player m), enemy := update_animation (enemy m)\<rparr>"

text \<open>One pass of the main loop: the whole simulation block is skipped once the game is over.\<close>

definition tick :: "tick_env \<Rightarrow> match \<Rightarrow> match" where
  "tick env m =
     (if \<not> game_over m
      then animation_phase (check_kos (collision_phase env (enemy_phase env (player_phase env m))))
      else m)"

text \<open>The state \<open>main_game\<close> starts from, after \<open>reset_positions\<close>.\<close>

definition reset_positions :: "character \<times> character \<Rightarrow> character \<times> character" where
  "reset_positions pe =
     (let (pl, en) = pe;
          pl1 = pl\<lparr>rect := set_center (py_int (real_of_int WIDTH * (25 / 100)))
                                (GROUND_Y - rect_h (rect pl) div 2) (rect pl)\<rparr>;
          en1 = en\<lparr>rect := set_center (py_int (real_of_int WIDTH * (75 / 100)))
                                (GROUND_Y - rect_h (rect en) div 2) (rect en)\<rparr>
      in (pl1\<lparr>velx := 0, vely := 0, on_ground := False\<rparr>,
          en1\<lparr>velx := 0, vely := 0, on_ground := False\<rparr>))"

definition main_game_init :: "archetype \<Rightarrow> archetype \<Rightarrow> match" where
  "main_game_init player_cls enemy_cls =
     (let (pl, en) = reset_positions (new_character Player player_cls, new_character Enemy enemy_cls)
      in \<lparr>player = pl, enemy = en, projectiles = [], game_over = False, winner = None,
          ai = SimpleAI_init\<rparr>)"

text \<open>
  The lists the collision loops read hold no dead element: every hitbox of either fighter and
  every projectile of the match has its \<open>alive\<close> flag set.
\<close>

definition all_alive :: "match \<Rightarrow> bool" where
  "all_alive m \<longleftrightarrow>
     (\<forall>a \<in> set (active_attacks (player m)). alive a)
     \<and> (\<forall>a \<in> set (active_attacks (enemy m)). alive a)
     \<and> (\<forall>p \<in> set (projectiles m). p_alive p)"

section \<open>Concrete inputs\<close>

text \<open>Two Mages standing on the ground, the player 200 units to the left of the enemy.\<close>

definition scenario_A :: character where
  "scenario_A = (new_character Enemy Mage)\<lparr>rect := Rect 300 440 64 80\<rparr>"

definition scenario_B :: character where
  "scenario_B = (new_character Player Mage)\<lparr>rect := Rect 100 440 64 80\<rparr>"

text \<open>A Boxer, a Ninja facing left and an Assassin, each standing on the ground.\<close>

definition boxer0 :: character where
  "boxer0 = (new_character Player Boxer)\<lparr>rect := Rect 100 440 64 80\<rparr>"

definition ninja0 :: character where
  "ninja0 = (new_character Player Ninja)\<lparr>rect := Rect 100 440 64 80, facing := - 1\<rparr>"

definition assassin0 :: character where
  "assassin0 = (new_character Enemy Assassin)\<lparr>rect := Rect 700 440 64 80\<rparr>"

text \<open>A match in which the player, with \<open>s\<close> stocks left, has fallen far below the stage.\<close>

definition ko_match :: "int \<Rightarrow> match" where
  "ko_match s =
     (main_game_init Mage Tank)
       \<lparr>player := (player (main_game_init Mage Tank))\<lparr>rect := Rect 218 900 64 80, stocks := s,
                     percent := 140, vely := 30\<rparr>\<rparr>"




definition double_ko :: match where
  "double_ko =
     (ko_match 1)\<lparr>enemy := (enemy (ko_match 1))\<lparr>rect := Rect 718 900 64 80, stocks := 1\<rparr>\<rparr>"




text \<open>
  A tick without key presses at clock 2000, with draws that make the controller do nothing;
  a running match of a Mage against a Tank that holds a hitbox of the player and a
  projectile; a hitbox that has already hit.
\<close>

definition quiet :: tick_env where
  "quiet =
     \<lparr>k_left = False, k_right = False, k_up = False, k_z = False, k_x = False, k_c = False,
      t_player_light = 2000, t_player_heavy = 2000, t_player_special = 2000,
      t_enemy_light = 2000, t_enemy_heavy = 2000, t_enemy_special = 2000,
      clock_player = (\<lambda>i. 2000), clock_enemy = (\<lambda>i. 2000),
      rand_int = 20, rand = sconst (9 / 10)\<rparr>"

definition brawl :: match where
  "brawl =
     (main_game_init Mage Tank)
       \<lparr>player := (player (main_game_init Mage Tank))
                    \<lparr>active_attacks := [new_hit (Rect 700 470 38 20) 6 6 1900]\<rparr>,
        projectiles := [new_projectile 720 470 10 0 Player 9 10 14]\<rparr>"

definition spent_hit :: hitbox where
  "spent_hit = (new_hit (Rect 290 470 38 20) 6 6 1900)\<lparr>alive := False\<rparr>"

section \<open>Properties\<close>

lemmas scenario_defs =
  scenario_A_def scenario_B_def new_character_def Character_init_def tune_def
  Rect_def BASE_WIDTH_def BASE_HEIGHT_def

lemmas input_defs =
  boxer0_def ninja0_def assassin0_def ko_match_def main_game_init_def reset_positions_def
  SimpleAI_init_def

lemmas attack_defs =
  attack_def light_attack_def heavy_attack_def special_attack_def
  Character_light_attack_def Character_heavy_attack_def Character_special_attack_def
  Ninja_special_attack_def Tank_light_attack_def Tank_special_attack_def
  Mage_special_attack_def Archer_special_attack_def Assassin_light_attack_def
  Assassin_special_attack_def Priest_special_attack_def Boxer_light_attack_def
  Boxer_special_attack_def Robot_light_attack_def Robot_special_attack_def
  Gunner_light_attack_def Gunner_special_attack_def Brawler_heavy_attack_def
  Brawler_special_attack_def

lemmas attack_aux_defs =
  append_attack_def trigger_attack_anim_def trigger_special_anim_def Boxer_hit_def

subsection \<open>Knockback scenario\<close>

lemma receive_hit_percent: "percent (receive_hit dmg kb src e) = percent e + dmg"
  by (simp add: receive_hit_def Let_def)

text \<open>
  C1 (as the code has it). \<open>receive_hit\<close> adds the damage to \<open>percent\<close> before it computes
  the impulse. So an entity of weight 1 and percent 0, hit with base knockback 10 from a
  source whose centre is strictly to its left, gains \<open>10 * (1 + damage / 100)\<close> of horizontal
  velocity and loses \<open>6 * (1 + damage / 100)\<close> of vertical velocity, and its percent becomes
  the damage. The change is exactly +10 and -6 only for a hit of damage 0.
\<close>

theorem receive_hit_scenario:
  assumes "weight a = 1" and "percent a = 0" and "centerx (rect b) < centerx (rect a)"
  shows "velx (receive_hit dmg 10 b a) = velx a + 10 * (1 + dmg / 100)
       \<and> vely (receive_hit dmg 10 b a) = vely a - 6 * (1 + dmg / 100)
       \<and> percent (receive_hit dmg 10 b a) = dmg"
  using assms by (simp add: receive_hit_def kb_force_def direction_def Let_def field_simps)

theorem receive_hit_scenario_witness:
  "velx (receive_hit 6 10 scenario_B scenario_A) = velx scenario_A + 10 * (1 + 6 / 100)
   \<and> vely (receive_hit 6 10 scenario_B scenario_A) = vely scenario_A - 6 * (1 + 6 / 100)
   \<and> percent (receive_hit 6 10 scenario_B scenario_A) = 6"
  by (rule receive_hit_scenario) (simp_all add: scenario_defs centerx_def)

text \<open>
  C1 as stated fails for a hit that does damage: with damage 6 (the base light attack)
  the horizontal velocity grows by 10.6, not 10, and the vertical one drops by 6.36, not 6.
\<close>

theorem receive_hit_scenario_counterexample:
  "weight scenario_A = 1 \<and> percent scenario_A = 0
   \<and> centerx (rect scenario_B) < centerx (rect scenario_A)
   \<and> velx (receive_hit 6 10 scenario_B scenario_A) - velx scenario_A = 106 / 10
   \<and> velx (receive_hit 6 10 scenario_B scenario_A) \<noteq> velx scenario_A + 10
   \<and> vely (receive_hit 6 10 scenario_B scenario_A) \<noteq> vely scenario_A - 6"
  by (simp add: scenario_defs centerx_def receive_hit_def kb_force_def direction_def Let_def)

subsection \<open>Cooldowns\<close>

text \<open>The table \<open>cooldown_window\<close> is what the methods compare with: an attack returns
  \<open>None\<close> exactly inside its window, and then it changes nothing.\<close>

lemma attack_in_window:
  "now - last_attack_time e < cooldown_window v e \<Longrightarrow> attack v now e = (None, e)"
  by (cases v; cases "ch_name e") (simp_all add: attack_defs cooldown_window_def)

lemma attack_None_iff:
  "fst (attack v now e) = None \<longleftrightarrow> now - last_attack_time e < cooldown_window v e"
  by (cases v; cases "ch_name e") (simp_all add: attack_defs cooldown_window_def Let_def)

lemma attack_stamps:
  "fst (attack v now e) \<noteq> None \<Longrightarrow>
     last_attack_time (snd (attack v now e)) = now
     \<and> ch_name (snd (attack v now e)) = ch_name e
     \<and> attack_cooldown (snd (attack v now e)) = attack_cooldown e"
  by (cases v; cases "ch_name e")
     (simp_all add: attack_defs attack_aux_defs cooldown_window_def Let_def split: if_splits)

lemma cooldown_window_cong:
  "ch_name e' = ch_name e \<Longrightarrow> attack_cooldown e' = attack_cooldown e \<Longrightarrow>
     cooldown_window v e' = cooldown_window v e"
  by (cases v; cases "ch_name e") (simp_all add: cooldown_window_def)

text \<open>What a successful call makes: a projectile for the Gunner's light attack and for the
  specials of Mage, Archer, Robot and Gunner, hitboxes appended to \<open>active_attacks\<close>
  otherwise.\<close>

lemma attack_produces:
  assumes ok: "fst (attack v now e) \<noteq> None"
  shows "((\<exists>p. fst (attack v now e) = Some (Proj p)) \<longleftrightarrow>
            (v = Light \<and> ch_name e = Gunner)
            \<or> (v = Special \<and> (ch_name e = Mage \<or> ch_name e = Archer \<or> ch_name e = Robot
                               \<or> ch_name e = Gunner)))
       \<and> (\<exists>hs. active_attacks (snd (attack v now e)) = active_attacks e @ hs
              \<and> length hs =
                  (if \<exists>p. fst (attack v now e) = Some (Proj p) then 0
                   else if v = Light \<and> ch_name e = Boxer then 3
                   else if v = Special \<and> ch_name e = Priest then 0
                   else 1))"
  using ok
  by (cases v; cases "ch_name e")
     (simp_all add: attack_defs attack_aux_defs Let_def split: if_splits)

text \<open>
  C7 (as the code has it). When a call of an attack variant at time \<open>t1\<close> succeeds, a
  second call of the same variant at a time \<open>t2\<close> inside the variant's cooldown window
  returns \<open>None\<close> and leaves the character as the first call left it: no hitbox is
  appended and no projectile is made. So the two calls together produce what the first one
  produced alone: one projectile and no hitbox for the Gunner's light attack and the
  specials of Mage, Archer, Robot and Gunner; otherwise no projectile and, appended to
  \<open>active_attacks\<close>, three hitboxes for the Boxer's light attack, none for the Priest's
  special and exactly one for every other variant.
\<close>

theorem second_attack_in_window:
  assumes first: "attack v t1 e = (Some r, e1)"
      and second: "t2 - t1 < cooldown_window v e"
  shows "attack v t2 e1 = (None, e1)
       \<and> ((\<exists>p. r = Proj p) \<longleftrightarrow>
            (v = Light \<and> ch_name e = Gunner)
            \<or> (v = Special \<and> (ch_name e = Mage \<or> ch_name e = Archer \<or> ch_name e = Robot
                               \<or> ch_name e = Gunner)))
       \<and> (\<exists>hs. active_attacks e1 = active_attacks e @ hs
              \<and> length hs =
                  (if \<exists>p. r = Proj p then 0
                   else if v = Light \<and> ch_name e = Boxer then 3
                   else if v = Special \<and> ch_name e = Priest then 0
                   else 1))"
proof -
  from first have ok: "fst (attack v t1 e) \<noteq> None" and e1: "snd (attack v t1 e) = e1"
    and r: "fst (attack v t1 e) = Some r"
    by simp_all
  from attack_stamps [OF ok] have st: "last_attack_time e1 = t1"
    and nm: "ch_name e1 = ch_name e" and cd: "attack_cooldown e1 = attack_cooldown e"
    unfolding e1 by blast+
  have "cooldown_window v e1 = cooldown_window v e"
    by (rule cooldown_window_cong [OF nm cd])
  with second st have "t2 - last_attack_time e1 < cooldown_window v e1"
    by simp
  then have noop: "attack v t2 e1 = (None, e1)"
    by (rule attack_in_window)
  from noop attack_produces [OF ok, unfolded e1 r option.inject] show ?thesis
    by (rule conjI)
qed

theorem second_attack_in_window_witness:
  "attack Light 1200 (snd (attack Light 1000 scenario_B)) = (None, snd (attack Light 1000 scenario_B))
   \<and> (\<exists>hs. active_attacks (snd (attack Light 1000 scenario_B)) = active_attacks scenario_B @ hs
          \<and> length hs = 1)"
proof -
  have a: "attack Light 1000 scenario_B = (Some Melee, snd (attack Light 1000 scenario_B))"
    by (simp add: scenario_defs attack_defs Let_def prod_eq_iff)
  have b: "1200 - 1000 < cooldown_window Light scenario_B"
    by (simp add: scenario_defs cooldown_window_def)
  have c: "ch_name scenario_B = Mage" by (simp add: scenario_defs)
  from second_attack_in_window [OF a b] show ?thesis
    by (simp add: c)
qed

text \<open>
  C7 as stated fails for the Boxer's light attack: two calls 100 ms apart (the window is
  180 ms) leave three hitboxes in \<open>active_attacks\<close>, not one, all made by the first call.
\<close>

theorem boxer_triple_hit_counterexample:
  "active_attacks boxer0 = []
   \<and> fst (attack Light 1000 boxer0) = Some Melee
   \<and> 1100 - 1000 < cooldown_window Light boxer0
   \<and> fst (attack Light 1100 (snd (attack Light 1000 boxer0))) = None
   \<and> length (active_attacks (snd (attack Light 1100 (snd (attack Light 1000 boxer0))))) = 3"
  by (simp add: input_defs scenario_defs attack_defs attack_aux_defs cooldown_window_def Let_def)

subsection \<open>Dash specials\<close>

text \<open>
  C10. A successful special attack of a Ninja or an Assassin moves the rectangle
  horizontally by 60 (Ninja) or 80 (Assassin) times \<open>facing\<close>, leaves both velocity
  components as they were, and changes no field other than \<open>rect\<close>, \<open>last_attack_time\<close>,
  \<open>active_attacks\<close> and \<open>current_state\<close>: putting these four back gives the character
  before the call.
\<close>

theorem dash_special_frame:
  assumes cls: "ch_name e = Ninja \<or> ch_name e = Assassin"
      and ok: "fst (special_attack now e) \<noteq> None"
  shows "rect (snd (special_attack now e)) =
           (rect e)\<lparr>rect_x := rect_x (rect e) + (if ch_name e = Ninja then 60 else 80) * facing e\<rparr>
       \<and> velx (snd (special_attack now e)) = velx e
       \<and> vely (snd (special_attack now e)) = vely e
       \<and> (snd (special_attack now e))
            \<lparr>rect := rect e, last_attack_time := last_attack_time e,
             active_attacks := active_attacks e, current_state := current_state e\<rparr> = e"
  using cls ok
  by (auto simp: special_attack_def Ninja_special_attack_def Assassin_special_attack_def
        attack_aux_defs Let_def split: if_splits)

theorem dash_special_frame_witness:
  "rect (snd (special_attack 1000 ninja0)) = Rect 40 440 64 80
   \<and> velx (snd (special_attack 1000 ninja0)) = velx ninja0
   \<and> rect (snd (special_attack 1000 assassin0)) = Rect 780 440 64 80
   \<and> vely (snd (special_attack 1000 assassin0)) = vely assassin0"
  using dash_special_frame [of ninja0 1000] dash_special_frame [of assassin0 1000]
  by (simp add: input_defs scenario_defs special_attack_def Ninja_special_attack_def
        Assassin_special_attack_def Let_def)

subsection \<open>Knock-outs\<close>

lemma set_center_centerx: "centerx (set_center cx cy r) = cx"
  by (simp add: centerx_def set_center_def)

text \<open>
  One call of \<open>check_ko\<close> alone, for a fighter whose rectangle is beyond the out-of-bounds
  threshold: with at most one stock left it only sets \<open>game_over\<close> and names the other
  fighter the winner (both fighters stay as they are); with three stocks it leaves the
  fighter with two stocks, percent 0, zero velocity and its centre at the spawn point.
\<close>

theorem check_ko_lifecycle:
  assumes oob: "out_of_bounds (rect (fighter who m))"
  shows "(stocks (fighter who m) \<le> 1 \<longrightarrow>
            check_ko who spawn_x m =
              m\<lparr>winner := Some (if who = Player then Enemy else Player), game_over := True\<rparr>)
       \<and> (stocks (fighter who m) = 3 \<longrightarrow>
            fighter who (check_ko who spawn_x m) =
              (fighter who m)\<lparr>stocks := 2, percent := 0, velx := 0, vely := 0,
                 rect := set_center (py_int spawn_x)
                           (GROUND_Y - rect_h (rect (fighter who m)) div 2) (rect (fighter who m))\<rparr>
            \<and> centerx (rect (fighter who (check_ko who spawn_x m))) = py_int spawn_x
            \<and> game_over (check_ko who spawn_x m) = game_over m
            \<and> winner (check_ko who spawn_x m) = winner m)"
  using oob
  by (cases who)
     (auto simp: check_ko_def Let_def on_ko_def fighter_def set_fighter_def set_center_centerx)

lemma ko_match_oob: "out_of_bounds (rect (fighter Player (ko_match s)))"
  by (simp add: input_defs fighter_def out_of_bounds_def top_def right_def left_def Rect_def
        HEIGHT_def WIDTH_def)

theorem check_ko_lifecycle_witness:
  "check_ko Player 250 (ko_match 1) = (ko_match 1)\<lparr>winner := Some Enemy, game_over := True\<rparr>
   \<and> stocks (player (check_ko Player 250 (ko_match 3))) = 2
   \<and> percent (player (check_ko Player 250 (ko_match 3))) = 0
   \<and> velx (player (check_ko Player 250 (ko_match 3))) = 0
   \<and> vely (player (check_ko Player 250 (ko_match 3))) = 0
   \<and> rect (player (check_ko Player 250 (ko_match 3))) = Rect 218 440 64 80
   \<and> \<not> game_over (check_ko Player 250 (ko_match 3))"
  using check_ko_lifecycle [OF ko_match_oob, of 1 250] check_ko_lifecycle [OF ko_match_oob, of 3 250]
  by (simp add: input_defs scenario_defs fighter_def set_center_def py_int_def GROUND_Y_def
        HEIGHT_def)


subsection \<open>Knockback direction and size\<close>

lemma velx_receive_hit:
  "velx (receive_hit dmg base_kb src e) =
     velx e + kb_force base_kb (e\<lparr>percent := percent e + dmg\<rparr>) * direction e src"
  by (simp add: receive_hit_def Let_def direction_def)

lemma impulse_eq:
  "impulse dmg base_kb src e = \<bar>kb_force base_kb (e\<lparr>percent := percent e + dmg\<rparr>)\<bar>"
  by (simp add: impulse_def velx_receive_hit direction_def abs_mult)

lemma kb_force_pos:
  assumes "0 < base_kb" "0 \<le> percent e"
  shows "0 < kb_force base_kb e"
proof -
  have "0 < 1 + percent e / 100" using assms by (simp add: add_pos_nonneg)
  then have "0 < base_kb * (1 + percent e / 100)" using assms by simp
  moreover have "0 < max (1 / 2) (weight e)" by (simp add: max_def)
  ultimately show ?thesis unfolding kb_force_def by (rule divide_pos_pos)
qed

lemma impulse_val:
  assumes "0 < base_kb" "0 \<le> percent e" "0 \<le> dmg"
  shows "impulse dmg base_kb src e =
           base_kb * (1 + (percent e + dmg) / 100) / max (1 / 2) (weight e)"
  using kb_force_pos [of base_kb "e\<lparr>percent := percent e + dmg\<rparr>"] assms
  by (simp add: impulse_eq) (simp add: kb_force_def)

text \<open>
  C6 (as the code has it). For a hit with positive base knockback and non-negative damage
  on an entity of non-negative percent: the horizontal velocity moves away from the
  source's centre (it grows when the source is strictly to the left, shrinks when it is
  strictly to the right); the size of the change strictly increases with the percent
  accumulated so far and with the base knockback; it strictly decreases with the weight
  for weights from 0.5 up, and does not depend on the weight below 0.5, where the
  divisor is clamped to 0.5.
\<close>

theorem receive_hit_knockback:
  assumes kb: "0 < base_kb" and p: "0 \<le> percent e" and d: "0 \<le> dmg"
  shows "(centerx (rect src) < centerx (rect e) \<longrightarrow>
            velx e < velx (receive_hit dmg base_kb src e))
       \<and> (centerx (rect e) < centerx (rect src) \<longrightarrow>
            velx (receive_hit dmg base_kb src e) < velx e)
       \<and> (\<forall>p'. percent e < p' \<longrightarrow>
            impulse dmg base_kb src e < impulse dmg base_kb src (e\<lparr>percent := p'\<rparr>))
       \<and> (\<forall>kb'. base_kb < kb' \<longrightarrow> impulse dmg base_kb src e < impulse dmg kb' src e)
       \<and> (\<forall>w'. 1 / 2 \<le> weight e \<and> weight e < w' \<longrightarrow>
            impulse dmg base_kb src (e\<lparr>weight := w'\<rparr>) < impulse dmg base_kb src e)
       \<and> (\<forall>w'. weight e \<le> 1 / 2 \<and> w' \<le> 1 / 2 \<longrightarrow>
            impulse dmg base_kb src (e\<lparr>weight := w'\<rparr>) = impulse dmg base_kb src e)"
proof -
  let ?e1 = "e\<lparr>percent := percent e + dmg\<rparr>"
  let ?m = "max (1 / 2) (weight e)"
  let ?s = "1 + (percent e + dmg) / 100"
  have p1: "0 \<le> percent ?e1" using p d by simp
  have pos: "0 < kb_force base_kb ?e1" by (rule kb_force_pos [OF kb p1])
  have m: "0 < ?m" by (simp add: max_def)
  have s: "0 < ?s" using p d by (simp add: add_pos_nonneg)
  have val: "impulse dmg base_kb src e = base_kb * ?s / ?m"
    by (rule impulse_val [OF kb p d])
  have dir: "centerx (rect src) < centerx (rect e) \<longrightarrow> velx e < velx (receive_hit dmg base_kb src e)"
    using pos by (simp add: velx_receive_hit direction_def)
  have dir': "centerx (rect e) < centerx (rect src) \<longrightarrow> velx (receive_hit dmg base_kb src e) < velx e"
    using pos by (simp add: velx_receive_hit direction_def)
  have mp: "\<forall>p'. percent e < p' \<longrightarrow>
      impulse dmg base_kb src e < impulse dmg base_kb src (e\<lparr>percent := p'\<rparr>)"
  proof (intro allI impI)
    fix p' assume lt: "percent e < p'"
    have "impulse dmg base_kb src (e\<lparr>percent := p'\<rparr>) = base_kb * (1 + (p' + dmg) / 100) / ?m"
      using impulse_val [of base_kb "e\<lparr>percent := p'\<rparr>" dmg src] kb p d lt by simp
    moreover have "base_kb * ?s < base_kb * (1 + (p' + dmg) / 100)"
      using kb lt by simp
    ultimately show "impulse dmg base_kb src e < impulse dmg base_kb src (e\<lparr>percent := p'\<rparr>)"
      using m val by (simp add: divide_strict_right_mono)
  qed
  have mb: "\<forall>kb'. base_kb < kb' \<longrightarrow> impulse dmg base_kb src e < impulse dmg kb' src e"
  proof (intro allI impI)
    fix kb' assume lt: "base_kb < kb'"
    then have kb': "0 < kb'" using kb by simp
    have "base_kb * ?s < kb' * ?s" using lt s by simp
    then show "impulse dmg base_kb src e < impulse dmg kb' src e"
      using m val impulse_val [OF kb' p d, of src] by (simp add: divide_strict_right_mono)
  qed
  have mw: "\<forall>w'. 1 / 2 \<le> weight e \<and> weight e < w' \<longrightarrow>
      impulse dmg base_kb src (e\<lparr>weight := w'\<rparr>) < impulse dmg base_kb src e"
  proof (intro allI impI)
    fix w' assume w: "1 / 2 \<le> weight e \<and> weight e < w'"
    have n: "0 < base_kb * ?s" using kb s by simp
    have mx: "?m = weight e" "max (1 / 2) w' = w'" using w by (simp_all add: max_def)
    have "impulse dmg base_kb src (e\<lparr>weight := w'\<rparr>) = base_kb * ?s / w'"
      using impulse_val [of base_kb "e\<lparr>weight := w'\<rparr>" dmg src] kb p d mx by simp
    moreover have "base_kb * ?s / w' < base_kb * ?s / weight e"
      using n w by (simp add: divide_strict_left_mono)
    ultimately show "impulse dmg base_kb src (e\<lparr>weight := w'\<rparr>) < impulse dmg base_kb src e"
      using val mx by simp
  qed
  have cw: "\<forall>w'. weight e \<le> 1 / 2 \<and> w' \<le> 1 / 2 \<longrightarrow>
      impulse dmg base_kb src (e\<lparr>weight := w'\<rparr>) = impulse dmg base_kb src e"
    by (simp add: impulse_eq kb_force_def max_def)
  from dir dir' mp mb mw cw show ?thesis by blast
qed

theorem receive_hit_knockback_witness:
  "velx scenario_A < velx (receive_hit 6 10 scenario_B scenario_A)
   \<and> impulse 6 10 scenario_B scenario_A < impulse 6 10 scenario_B (scenario_A\<lparr>percent := 50\<rparr>)
   \<and> impulse 6 10 scenario_B scenario_A < impulse 6 12 scenario_B scenario_A
   \<and> impulse 6 10 scenario_B (scenario_A\<lparr>weight := 2\<rparr>) < impulse 6 10 scenario_B scenario_A"
proof -
  have kb: "0 < (10::real)" and d: "0 \<le> (6::real)" by simp_all
  have p: "0 \<le> percent scenario_A" by (simp add: scenario_defs)
  note t = receive_hit_knockback [OF kb p d, of scenario_B]
  have "centerx (rect scenario_B) < centerx (rect scenario_A)"
    by (simp add: scenario_defs centerx_def)
  with t [THEN conjunct1]
  have c1: "velx scenario_A < velx (receive_hit 6 10 scenario_B scenario_A)" by (rule mp)
  have "percent scenario_A < 50" by (simp add: scenario_defs)
  with t [THEN conjunct2, THEN conjunct2, THEN conjunct1, THEN spec, of 50]
  have c2: "impulse 6 10 scenario_B scenario_A < impulse 6 10 scenario_B (scenario_A\<lparr>percent := 50\<rparr>)"
    by (rule mp)
  have "(10::real) < 12" by simp
  with t [THEN conjunct2, THEN conjunct2, THEN conjunct2, THEN conjunct1, THEN spec, of 12]
  have c3: "impulse 6 10 scenario_B scenario_A < impulse 6 12 scenario_B scenario_A"
    by (rule mp)
  have "1 / 2 \<le> weight scenario_A \<and> weight scenario_A < 2" by (simp add: scenario_defs)
  with t [THEN conjunct2, THEN conjunct2, THEN conjunct2, THEN conjunct2, THEN conjunct1,
          THEN spec, of 2]
  have c4: "impulse 6 10 scenario_B (scenario_A\<lparr>weight := 2\<rparr>) < impulse 6 10 scenario_B scenario_A"
    by (rule mp)
  from c1 c2 c3 c4 show ?thesis by blast
qed

text \<open>
  C6 as stated fails below the clamp: for the weights 0.25 and 0.4, everything else
  equal, the impulse is the same, so it does not strictly decrease with the weight.
\<close>

theorem weight_clamp_counterexample:
  "impulse 6 10 scenario_B (scenario_A\<lparr>weight := 2 / 5\<rparr>)
     = impulse 6 10 scenario_B (scenario_A\<lparr>weight := 1 / 4\<rparr>)
   \<and> \<not> impulse 6 10 scenario_B (scenario_A\<lparr>weight := 2 / 5\<rparr>)
       < impulse 6 10 scenario_B (scenario_A\<lparr>weight := 1 / 4\<rparr>)"
  by (simp add: impulse_def receive_hit_def kb_force_def direction_def Let_def scenario_defs
        centerx_def)

subsection \<open>Landing on platforms\<close>

lemma platform_step_lands:
  "lands plat e \<Longrightarrow>
     platform_step plat e = e\<lparr>rect := set_bottom (top plat) (rect e), vely := 0, on_ground := True\<rparr>"
  by (simp add: platform_step_def lands_def)

lemma platform_step_skip: "\<not> lands plat e \<Longrightarrow> platform_step plat e = e"
  by (auto simp: platform_step_def lands_def)

lemma platform_step_grounded:
  "on_ground e \<and> vely e = 0 \<Longrightarrow> on_ground (platform_step plat e) \<and> vely (platform_step plat e) = 0"
  by (simp add: platform_step_def)

lemma fold_grounded:
  "on_ground e \<and> vely e = 0 \<Longrightarrow>
     on_ground (fold platform_step plats e) \<and> vely (fold platform_step plats e) = 0"
proof (induction plats arbitrary: e)
  case Nil
  then show ?case by simp
next
  case (Cons p ps)
  from platform_step_grounded [OF Cons.prems]
  have "on_ground (platform_step p e) \<and> vely (platform_step p e) = 0" .
  from Cons.IH [OF this] show ?case by simp
qed

lemma fold_no_landing:
  "\<forall>p \<in> set plats. \<not> lands p e \<Longrightarrow> fold platform_step plats e = e"
  by (induction plats) (simp_all add: platform_step_skip)

lemma fold_landing:
  assumes "\<exists>p \<in> set plats. lands p e"
  shows "on_ground (fold platform_step plats e) \<and> vely (fold platform_step plats e) = 0"
  using assms
proof (induction plats)
  case Nil
  then show ?case by simp
next
  case (Cons p ps)
  show ?case
  proof (cases "lands p e")
    case True
    then have "on_ground (platform_step p e) \<and> vely (platform_step p e) = 0"
      by (simp add: platform_step_lands)
    from fold_grounded [OF this] show ?thesis by simp
  next
    case False
    with Cons.prems have "\<exists>q \<in> set ps. lands q e" by auto
    from Cons.IH [OF this] False show ?thesis by (simp add: platform_step_skip)
  qed
qed

lemma lands_reset [simp]: "lands p (e\<lparr>on_ground := False\<rparr>) = lands p e"
  by (simp add: lands_def)

lemma collide_platforms_iff:
  "on_ground (collide_platforms plats e) \<longleftrightarrow> (\<exists>p \<in> set plats. lands p e)"
proof (cases "\<exists>p \<in> set plats. lands p e")
  case True
  then have "\<exists>p \<in> set plats. lands p (e\<lparr>on_ground := False\<rparr>)" by simp
  from fold_landing [OF this] True show ?thesis by (simp add: collide_platforms_def)
next
  case False
  then have "\<forall>p \<in> set plats. \<not> lands p (e\<lparr>on_ground := False\<rparr>)" by simp
  from fold_no_landing [OF this] False show ?thesis by (simp add: collide_platforms_def)
qed

lemma collide_platforms_landed:
  "\<exists>p \<in> set plats. lands p e \<Longrightarrow> vely (collide_platforms plats e) = 0"
  using fold_landing [of plats "e\<lparr>on_ground := False\<rparr>"] by (simp add: collide_platforms_def)







subsection \<open>The winner\<close>

text \<open>Once the game is over, a tick changes nothing.\<close>

lemma tick_game_over: "game_over m \<Longrightarrow> tick env m = m"
  by (simp add: tick_def)

text \<open>
  C9, on the code. When both fighters are out of bounds on their last stock,
  \<open>check_ko(player, ...)\<close> sets \<open>game_over\<close> with the enemy as winner, and the call
  \<open>check_ko(enemy, ...)\<close> that follows in the same tick replaces the winner by the player.
\<close>

theorem double_ko_winner_overwritten:
  "\<not> game_over double_ko
   \<and> out_of_bounds (rect (player double_ko)) \<and> stocks (player double_ko) = 1
   \<and> out_of_bounds (rect (enemy double_ko)) \<and> stocks (enemy double_ko) = 1
   \<and> game_over (check_ko Player (real_of_int WIDTH * (25 / 100)) double_ko)
   \<and> winner (check_ko Player (real_of_int WIDTH * (25 / 100)) double_ko) = Some Enemy
   \<and> game_over (check_kos double_ko)
   \<and> winner (check_kos double_ko) = Some Player"
  by (simp add: double_ko_def input_defs scenario_defs check_kos_def check_ko_def fighter_def
        out_of_bounds_def top_def right_def left_def HEIGHT_def WIDTH_def Let_def)

subsection \<open>Dead hitboxes and projectiles\<close>

lemma receive_hit_attacks [simp]:
  "active_attacks (receive_hit dmg kb src e) = active_attacks e"
  by (simp add: receive_hit_def Let_def)

lemma attacks_loop_attacks [simp]:
  "active_attacks (fst (attacks_loop owner hs target)) = active_attacks target"
  by (induction hs arbitrary: target) (simp_all add: split_def Let_def)

lemma attacks_loop_dead:
  "fst (attacks_loop owner hs target) = fst (attacks_loop owner (filter alive hs) target)"
  by (induction hs arbitrary: target) (simp_all add: split_def Let_def)

lemma prune_attacks_alive: "a \<in> set (prune_attacks clock hs) \<Longrightarrow> alive a"
  by (auto simp: prune_attacks_def)

lemma resolve_attacks_owner:
  "a \<in> set (active_attacks (fst (resolve_attacks clock owner target))) \<Longrightarrow> alive a"
  by (auto simp: resolve_attacks_def split_def Let_def dest: prune_attacks_alive)

lemma resolve_attacks_target [simp]:
  "active_attacks (snd (resolve_attacks clock owner target)) = active_attacks target"
  by (simp add: resolve_attacks_def split_def Let_def)

lemma projectile_hits_alive:
  "p \<in> set (snd (projectile_hits ps pe)) \<Longrightarrow> p_alive p"
proof (induction ps arbitrary: pe)
  case Nil
  then show ?case by simp
next
  case (Cons q qs)
  obtain pl en where pe: "pe = (pl, en)" by (cases pe)
  from Cons.prems Cons.IH show ?case
    unfolding pe by (auto simp: split_def Let_def split: if_splits)
qed

lemma projectile_hits_attacks:
  "active_attacks (fst (fst (projectile_hits ps (pl, en)))) = active_attacks pl
   \<and> active_attacks (snd (fst (projectile_hits ps (pl, en)))) = active_attacks en"
  by (induction ps arbitrary: pl en) (simp_all add: split_def Let_def)

lemma update_projectiles_alive:
  "p \<in> set (update_projectiles ps) \<Longrightarrow> p_alive p"
  by (induction ps) (auto simp: Let_def Projectile_update_def split: if_splits)

lemma integrate_attacks [simp]: "active_attacks (integrate e) = active_attacks e"
  by (simp add: integrate_def)

lemma update_animation_attacks [simp]: "active_attacks (update_animation e) = active_attacks e"
  by (simp add: update_animation_def)

lemma collision_phase_all_alive: "all_alive (collision_phase env m)"
proof -
  let ?ps = "update_projectiles (projectiles m)"
  let ?pl1 = "handle_platform_collisions ((player m)\<lparr>rect := clamp_ip arena (rect (player m))\<rparr>)"
  let ?en1 = "handle_platform_collisions ((enemy m)\<lparr>rect := clamp_ip arena (rect (enemy m))\<rparr>)"
  let ?r1 = "resolve_attacks (clock_player env) ?pl1 ?en1"
  let ?r2 = "resolve_attacks (clock_enemy env) (snd ?r1) (fst ?r1)"
  let ?h = "projectile_hits ?ps (snd ?r2, fst ?r2)"
  have eq: "collision_phase env m =
      m\<lparr>player := integrate (fst (fst ?h)), enemy := integrate (snd (fst ?h)),
        projectiles := snd ?h\<rparr>"
    by (simp add: collision_phase_def Let_def split_def)
  have pl: "active_attacks (fst (fst ?h)) = active_attacks (fst ?r1)"
    using projectile_hits_attacks [of ?ps "snd ?r2" "fst ?r2"] by simp
  have en: "active_attacks (snd (fst ?h)) = active_attacks (fst ?r2)"
    using projectile_hits_attacks [of ?ps "snd ?r2" "fst ?r2"] by simp
  show ?thesis
    unfolding all_alive_def eq
    by (auto simp: pl en dest: resolve_attacks_owner projectile_hits_alive)
qed

lemma check_ko_lists:
  "active_attacks (player (check_ko who sx m)) = active_attacks (player m)
   \<and> active_attacks (enemy (check_ko who sx m)) = active_attacks (enemy m)
   \<and> projectiles (check_ko who sx m) = projectiles m"
  by (cases who) (simp_all add: check_ko_def Let_def fighter_def set_fighter_def on_ko_def)

lemma check_kos_all_alive: "all_alive (check_kos m) = all_alive m"
  by (simp add: all_alive_def check_kos_def check_ko_lists)

lemma animation_phase_all_alive: "all_alive (animation_phase m) = all_alive m"
  by (simp add: all_alive_def animation_phase_def)

lemma tick_all_alive: "\<not> game_over m \<Longrightarrow> all_alive (tick env m)"
  by (simp add: tick_def animation_phase_all_alive check_kos_all_alive collision_phase_all_alive)

lemma init_all_alive: "all_alive (main_game_init pc ec)"
  by (simp add: all_alive_def main_game_init_def reset_positions_def split_def Let_def
        new_character_def Character_init_def tune_def split: archetype.splits)


lemma fold_tick_all_alive: "all_alive m \<Longrightarrow> all_alive (fold tick envs m)"
proof (induction envs arbitrary: m)
  case Nil
  then show ?case by simp
next
  case (Cons env envs)
  have "all_alive (tick env m)"
  proof (cases "game_over m")
    case True
    with Cons.prems show ?thesis by (simp add: tick_game_over)
  next
    case False
    then show ?thesis by (rule tick_all_alive)
  qed
  then have "all_alive (fold tick envs (tick env m))" by (rule Cons.IH)
  then show ?case by simp
qed

lemma attack_alive:
  "(\<forall>a \<in> set (active_attacks e). alive a) \<Longrightarrow>
     (\<forall>a \<in> set (active_attacks (snd (attack v now e))). alive a)
     \<and> (\<forall>p. fst (attack v now e) = Some (Proj p) \<longrightarrow> p_alive p)"
  by (cases v; cases "ch_name e")
     (auto simp: attack_defs attack_aux_defs new_hit_def new_projectile_def Let_def)

lemma update_physics_attacks [simp]:
  "active_attacks (update_physics g e) = active_attacks e"
  by (simp add: update_physics_def Let_def)

lemma apply_input_attacks [simp]:
  "active_attacks (apply_input mv j e) = active_attacks e"
  by (simp add: apply_input_def Let_def)

lemma register_alive:
  assumes "\<forall>a \<in> set (active_attacks e). alive a" and "\<forall>p \<in> set ps. p_alive p"
  shows "(\<forall>a \<in> set (active_attacks (fst (register (attack v now e) ps))). alive a)
       \<and> (\<forall>p \<in> set (snd (register (attack v now e) ps)). p_alive p)"
  using attack_alive [OF assms(1), of v now] assms(2)
  by (auto simp: register_def split: option.splits attack_result.splits)

lemma fight_alive:
  assumes e: "\<forall>a \<in> set (active_attacks e). alive a" and ps: "\<forall>p \<in> set ps. p_alive p"
  shows "(\<forall>a \<in> set (active_attacks (fst (fight wl wh ws t_l t_h t_s (e, ps)))). alive a)
       \<and> (\<forall>p \<in> set (snd (fight wl wh ws t_l t_h t_s (e, ps))). p_alive p)"
proof -
  let ?r1 = "if wl then register (attack Light t_l e) ps else (e, ps)"
  have r1: "(\<forall>a \<in> set (active_attacks (fst ?r1)). alive a) \<and> (\<forall>p \<in> set (snd ?r1). p_alive p)"
    using register_alive [OF e ps, of Light t_l] e ps by simp
  let ?e2 = "if wh then snd (attack Heavy t_h (fst ?r1)) else fst ?r1"
  have e2: "\<forall>a \<in> set (active_attacks ?e2). alive a"
    using attack_alive [of "fst ?r1" Heavy t_h] r1 by simp
  let ?r3 = "if ws then register (attack Special t_s ?e2) (snd ?r1) else (?e2, snd ?r1)"
  have r3: "(\<forall>a \<in> set (active_attacks (fst ?r3)). alive a) \<and> (\<forall>p \<in> set (snd ?r3). p_alive p)"
    using register_alive [OF e2, of "snd ?r1" Special t_s] e2 r1 by simp
  have "fight wl wh ws t_l t_h t_s (e, ps) = ?r3"
    by (simp add: fight_def attack_def Let_def split_def)
  with r3 show ?thesis by simp
qed

lemma player_phase_all_alive: "all_alive m \<Longrightarrow> all_alive (player_phase env m)"
proof -
  assume a: "all_alive m"
  let ?mv = "(if k_left env then - 1 else 0) + (if k_right env then 1 else (0::int))"
  let ?pl2 = "apply_input ?mv (k_up env) (update_physics GRAVITY (player m))"
  let ?f = "fight (k_z env) (k_x env) (k_c env) (t_player_light env) (t_player_heavy env)
              (t_player_special env) (?pl2, projectiles m)"
  have eq: "player_phase env m = m\<lparr>player := fst ?f, projectiles := snd ?f\<rparr>"
    by (simp add: player_phase_def Let_def split_def)
  have "\<forall>a \<in> set (active_attacks ?pl2). alive a" using a by (simp add: all_alive_def)
  moreover have "\<forall>p \<in> set (projectiles m). p_alive p" using a by (simp add: all_alive_def)
  ultimately have "(\<forall>a \<in> set (active_attacks (fst ?f)). alive a) \<and> (\<forall>p \<in> set (snd ?f). p_alive p)"
    by (rule fight_alive)
  with a show ?thesis unfolding eq by (simp add: all_alive_def)
qed

lemma enemy_phase_all_alive: "all_alive m \<Longrightarrow> all_alive (enemy_phase env m)"
proof -
  assume a: "all_alive m"
  let ?d = "decide (enemy m) (player m) (projectiles m) (rand_int env) (rand env)
              (SimpleAI_update (ai m))"
  let ?act = "fst ?d"
  let ?en2 = "apply_input (i_move ?act) (i_jump ?act) (update_physics GRAVITY (enemy m))"
  let ?f = "fight (i_light ?act) (i_heavy ?act) (i_special ?act) (t_enemy_light env)
              (t_enemy_heavy env) (t_enemy_special env) (?en2, projectiles m)"
  have eq: "enemy_phase env m = m\<lparr>enemy := fst ?f, projectiles := snd ?f, ai := fst (snd ?d)\<rparr>"
    by (simp add: enemy_phase_def Let_def split_def)
  have "\<forall>a \<in> set (active_attacks ?en2). alive a" using a by (simp add: all_alive_def)
  moreover have "\<forall>p \<in> set (projectiles m). p_alive p" using a by (simp add: all_alive_def)
  ultimately have "(\<forall>a \<in> set (active_attacks (fst ?f)). alive a) \<and> (\<forall>p \<in> set (snd ?f). p_alive p)"
    by (rule fight_alive)
  with a show ?thesis unfolding eq by (simp add: all_alive_def)
qed

lemma receive_hit_rect [simp]: "rect (receive_hit dmg kb src e) = rect e"
  by (simp add: receive_hit_def Let_def)

lemma attacks_loop_rect [simp]: "rect (fst (attacks_loop owner hs target)) = rect target"
  by (induction hs arbitrary: target) (simp_all add: split_def Let_def)

lemma attacks_loop_flags:
  "snd (attacks_loop owner hs target) =
     map (\<lambda>a. if colliderect (hb_rect a) (rect target) \<and> alive a then a\<lparr>alive := False\<rparr> else a) hs"
  by (induction hs arbitrary: target) (simp_all add: split_def Let_def)

lemma prune_attacks_subset: "a \<in> set (prune_attacks clock hs) \<Longrightarrow> a \<in> set hs \<and> alive a"
  by (auto simp: prune_attacks_def in_set_enumerate_eq)

lemma resolve_attacks_kept:
  assumes "a \<in> set (active_attacks (fst (resolve_attacks clock owner target)))"
  shows "a \<in> set (active_attacks owner) \<and> alive a \<and> \<not> colliderect (hb_rect a) (rect target)"
proof -
  let ?f = "\<lambda>a. if colliderect (hb_rect a) (rect target) \<and> alive a then a\<lparr>alive := False\<rparr> else a"
  from assms have "a \<in> set (prune_attacks clock (map ?f (active_attacks owner)))"
    by (simp add: resolve_attacks_def split_def Let_def attacks_loop_flags)
  then have "a \<in> set (map ?f (active_attacks owner))" and al: "alive a"
    by (auto dest: prune_attacks_subset)
  then obtain b where b: "b \<in> set (active_attacks owner)" and ab: "a = ?f b" by auto
  show ?thesis
  proof (cases "colliderect (hb_rect b) (rect target) \<and> alive b")
    case True
    with ab have "\<not> alive a" by simp
    with al show ?thesis by simp
  next
    case False
    with ab have "a = b" by simp
    with b al False show ?thesis by simp
  qed
qed

lemma projectile_hits_rect [simp]:
  "rect (fst (fst (projectile_hits ps (pl, en)))) = rect pl
   \<and> rect (snd (fst (projectile_hits ps (pl, en)))) = rect en"
  by (induction ps arbitrary: pl en) (simp_all add: split_def Let_def)

lemma projectile_hits_step:
  "snd (projectile_hits (q # qs) (pl, en)) =
     (if p_owner q = Player \<and> colliderect (p_rect q) (rect en)
      then snd (projectile_hits qs (pl, receive_hit (p_damage q) (p_knockback q) pl en))
      else if p_owner q = Enemy \<and> colliderect (p_rect q) (rect pl)
      then snd (projectile_hits qs (receive_hit (p_damage q) (p_knockback q) en pl, en))
      else if p_alive q then q # snd (projectile_hits qs (pl, en))
      else snd (projectile_hits qs (pl, en)))"
  by (simp add: split_def Let_def)

lemma projectile_hits_kept:
  "p \<in> set (snd (projectile_hits ps (pl, en))) \<Longrightarrow>
     p \<in> set ps \<and> p_alive p
     \<and> \<not> (p_owner p = Player \<and> colliderect (p_rect p) (rect en))
     \<and> \<not> (p_owner p = Enemy \<and> colliderect (p_rect p) (rect pl))"
proof (induction ps arbitrary: pl en)
  case Nil
  then show ?case by simp
next
  case (Cons q qs)
  let ?P = "p_owner q = Player \<and> colliderect (p_rect q) (rect en)"
  let ?E = "p_owner q = Enemy \<and> colliderect (p_rect q) (rect pl)"
  from Cons.prems have mem:
    "p \<in> set (if ?P then snd (projectile_hits qs (pl, receive_hit (p_damage q) (p_knockback q) pl en))
        else if ?E then snd (projectile_hits qs (receive_hit (p_damage q) (p_knockback q) en pl, en))
        else if p_alive q then q # snd (projectile_hits qs (pl, en))
        else snd (projectile_hits qs (pl, en)))"
    unfolding projectile_hits_step .
  show ?case
  proof (cases ?P)
    case True
    with mem
    have "p \<in> set (snd (projectile_hits qs (pl, receive_hit (p_damage q) (p_knockback q) pl en)))"
      by simp
    from Cons.IH [OF this] show ?thesis by simp
  next
    case nP: False
    show ?thesis
    proof (cases ?E)
      case True
      with nP mem
      have "p \<in> set (snd (projectile_hits qs (receive_hit (p_damage q) (p_knockback q) en pl, en)))"
        by (auto split: if_splits)
      from Cons.IH [OF this] show ?thesis by simp
    next
      case nE: False
      show ?thesis
      proof (cases "p_alive q")
        case True
        with nP nE mem
        have "p \<in> set (q # snd (projectile_hits qs (pl, en)))"
          by (auto split: if_splits)
        then have "p = q \<or> p \<in> set (snd (projectile_hits qs (pl, en)))" by simp
        then show ?thesis
        proof
          assume "p = q"
          with True nP nE show ?thesis by auto
        next
          assume "p \<in> set (snd (projectile_hits qs (pl, en)))"
          from Cons.IH [OF this] show ?thesis by simp
        qed
      next
        case False
        with nP nE mem
        have "p \<in> set (snd (projectile_hits qs (pl, en)))"
          by (auto split: if_splits)
        from Cons.IH [OF this] show ?thesis by simp
      qed
    qed
  qed
qed

text \<open>
  C8. A hitbox or projectile whose \<open>alive\<close> flag is false never again takes part in a collision
  check and never triggers another hit. The collision loops run over the two \<open>active_attacks\<close>
  lists and the projectile list, so the property is that these lists hold no dead element
  whenever a loop reads them, and that an element that has hit leaves its list in the same
  tick:

  \<^item> in every state reached from the start of a match by any number of ticks, every listed
    hitbox and projectile is alive;
  \<^item> the input and attack steps of a tick, which run before the collision loops, keep it so
    (every attack creates its hitboxes and its projectile alive);
  \<^item> a tick of a running match ends with no dead element in any list, whatever it started from;
  \<^item> the hitboxes an owner keeps after its loop and the pruning were in the list before, are
    alive and did not overlap the target: a hitbox that hit is gone;
  \<^item> the projectiles left by the update loop, which are those the hit loop reads, are alive;
  \<^item> the projectiles left by the hit loop were in the list before, are alive and did not
    overlap the opposing fighter: a projectile that hit is gone;
  \<^item> the hitbox loop treats a list as it treats the list of its alive elements: a dead hitbox
    changes nothing in the target.
\<close>

theorem dead_never_again:
  "all_alive (fold tick envs (main_game_init player_cls enemy_cls))
   \<and> (all_alive m \<longrightarrow> all_alive (enemy_phase env (player_phase env m)))
   \<and> (\<not> game_over m \<longrightarrow> all_alive (tick env m))
   \<and> (\<forall>a \<in> set (active_attacks (fst (resolve_attacks clock owner target))).
         a \<in> set (active_attacks owner) \<and> alive a \<and> \<not> colliderect (hb_rect a) (rect target))
   \<and> (\<forall>p \<in> set (update_projectiles ps). p_alive p)
   \<and> (\<forall>p \<in> set (snd (projectile_hits ps (pl, en))).
         p \<in> set ps \<and> p_alive p
         \<and> \<not> (p_owner p = Player \<and> colliderect (p_rect p) (rect en))
         \<and> \<not> (p_owner p = Enemy \<and> colliderect (p_rect p) (rect pl)))
   \<and> fst (attacks_loop owner hs target) = fst (attacks_loop owner (filter alive hs) target)"
proof -
  have a: "all_alive (fold tick envs (main_game_init player_cls enemy_cls))"
    by (rule fold_tick_all_alive) (rule init_all_alive)
  have b: "all_alive m \<longrightarrow> all_alive (enemy_phase env (player_phase env m))"
    by (simp add: enemy_phase_all_alive player_phase_all_alive)
  have c: "\<not> game_over m \<longrightarrow> all_alive (tick env m)"
    by (simp add: tick_all_alive)
  have d: "\<forall>a \<in> set (active_attacks (fst (resolve_attacks clock owner target))).
         a \<in> set (active_attacks owner) \<and> alive a \<and> \<not> colliderect (hb_rect a) (rect target)"
    by (rule ballI) (rule resolve_attacks_kept)
  have e: "\<forall>p \<in> set (update_projectiles ps). p_alive p"
    by (simp add: update_projectiles_alive)
  have f: "\<forall>p \<in> set (snd (projectile_hits ps (pl, en))).
         p \<in> set ps \<and> p_alive p
         \<and> \<not> (p_owner p = Player \<and> colliderect (p_rect p) (rect en))
         \<and> \<not> (p_owner p = Enemy \<and> colliderect (p_rect p) (rect pl))"
    by (rule ballI) (rule projectile_hits_kept)
  have g: "fst (attacks_loop owner hs target) = fst (attacks_loop owner (filter alive hs) target)"
    by (rule attacks_loop_dead)
  from a b c d e f g show ?thesis by (intro conjI)
qed

text \<open>
  The theorem at a running match that holds a hitbox of the player and a projectile, and at a
  dead hitbox that overlaps its target.
\<close>

theorem dead_never_again_witness:
  "all_alive brawl \<and> \<not> game_over brawl
   \<and> all_alive (enemy_phase quiet (player_phase quiet brawl))
   \<and> list_all alive (active_attacks (player (tick quiet brawl)))
   \<and> list_all alive (active_attacks (enemy (tick quiet brawl)))
   \<and> list_all p_alive (projectiles (tick quiet brawl))
   \<and> list_all alive
        (active_attacks (fst (resolve_attacks (\<lambda>i. 2000)
           (scenario_B\<lparr>active_attacks := [spent_hit]\<rparr>) scenario_A)))
   \<and> list_all p_alive (update_projectiles (projectiles brawl))
   \<and> list_all p_alive (snd (projectile_hits (projectiles brawl) (player brawl, enemy brawl)))
   \<and> colliderect (hb_rect spent_hit) (rect scenario_A)
   \<and> fst (attacks_loop (scenario_B\<lparr>active_attacks := [spent_hit]\<rparr>) [spent_hit] scenario_A) = scenario_A"
proof -
  note t = dead_never_again [of "[]" Mage Tank brawl quiet "\<lambda>i. 2000"
      "scenario_B\<lparr>active_attacks := [spent_hit]\<rparr>" scenario_A "projectiles brawl"
      "player brawl" "enemy brawl" "[spent_hit]"]
  have al: "all_alive brawl"
    by (simp add: all_alive_def brawl_def input_defs new_hit_def new_projectile_def
          reset_positions_def split_def Let_def new_character_def Character_init_def tune_def)
  have go: "\<not> game_over brawl" by (simp add: brawl_def input_defs)
  from t [THEN conjunct2, THEN conjunct1] al
  have p: "all_alive (enemy_phase quiet (player_phase quiet brawl))" by (rule mp)
  from t [THEN conjunct2, THEN conjunct2, THEN conjunct1] go
  have "all_alive (tick quiet brawl)" by (rule mp)
  then have a: "list_all alive (active_attacks (player (tick quiet brawl)))
   \<and> list_all alive (active_attacks (enemy (tick quiet brawl)))
   \<and> list_all p_alive (projectiles (tick quiet brawl))"
    by (simp add: all_alive_def list_all_iff)
  have r: "list_all alive
        (active_attacks (fst (resolve_attacks (\<lambda>i. 2000)
           (scenario_B\<lparr>active_attacks := [spent_hit]\<rparr>) scenario_A)))"
    unfolding list_all_iff
    using t [THEN conjunct2, THEN conjunct2, THEN conjunct2, THEN conjunct1] by blast
  have u: "list_all p_alive (update_projectiles (projectiles brawl))"
    unfolding list_all_iff
    by (rule t [THEN conjunct2, THEN conjunct2, THEN conjunct2, THEN conjunct2, THEN conjunct1])
  have h: "list_all p_alive (snd (projectile_hits (projectiles brawl) (player brawl, enemy brawl)))"
    unfolding list_all_iff
    using t [THEN conjunct2, THEN conjunct2, THEN conjunct2, THEN conjunct2, THEN conjunct2,
        THEN conjunct1] by blast
  have b: "colliderect (hb_rect spent_hit) (rect scenario_A)"
    by (simp add: spent_hit_def new_hit_def scenario_defs colliderect_def)
  have f: "filter alive [spent_hit] = []" by (simp add: spent_hit_def)
  have "fst (attacks_loop (scenario_B\<lparr>active_attacks := [spent_hit]\<rparr>) [spent_hit] scenario_A) =
        fst (attacks_loop (scenario_B\<lparr>active_attacks := [spent_hit]\<rparr>) (filter alive [spent_hit])
          scenario_A)"
    by (rule t [THEN conjunct2, THEN conjunct2, THEN conjunct2, THEN conjunct2, THEN conjunct2,
        THEN conjunct2])
  also have "\<dots> = scenario_A" unfolding f by simp
  finally have c: "fst (attacks_loop (scenario_B\<lparr>active_attacks := [spent_hit]\<rparr>) [spent_hit] scenario_A) = scenario_A" .
  from al go p a r u h b c show ?thesis by (intro conjI) simp_all
qed

end
